theory Spec2Isabelle
  imports Main
begin

section \<open>JavaScript values, objects and thrown values\<close>

text \<open>
  The plugin handles loosely typed data (\<^verbatim>\<open>Record<string, any>\<close>), so values are
  modelled dynamically. Only integral numbers occur (the request timeout).
\<close>

datatype jsval =
    JUndefined
  | JNull
  | JBool bool
  | JNum int
  | JStr string
  | JArr "jsval list"
  | JObj "(string \<times> jsval) list"

text \<open>
  A top-level object (configuration, call options, wire payload, send result) is a map
  from property names to values. A key mapped to \<open>JUndefined\<close> is a property that is
  present with the value \<^verbatim>\<open>undefined\<close>; an unmapped key is an absent property.
\<close>

type_synonym js_object = "string \<rightharpoonup> jsval"

text \<open>JavaScript truthiness, as used by \<^verbatim>\<open>!x\<close>, \<^verbatim>\<open>!!x\<close> and \<^verbatim>\<open>x || y\<close>.\<close>

fun truthy :: "jsval \<Rightarrow> bool" where
  "truthy JUndefined = False"
| "truthy JNull = False"
| "truthy (JBool b) = b"
| "truthy (JNum n) = (n \<noteq> 0)"
| "truthy (JStr s) = (s \<noteq> [])"
| "truthy (JArr xs) = True"
| "truthy (JObj kvs) = True"

text \<open>\<^verbatim>\<open>a || b\<close>\<close>

definition js_or :: "jsval \<Rightarrow> jsval \<Rightarrow> jsval" where
  "js_or a b = (if truthy a then a else b)"

text \<open>\<^verbatim>\<open>obj.k\<close> on a top-level object: an absent property reads as \<^verbatim>\<open>undefined\<close>.\<close>

definition js_get :: "js_object \<Rightarrow> string \<Rightarrow> jsval" where
  "js_get obj k = (case obj k of None \<Rightarrow> JUndefined | Some v \<Rightarrow> v)"

text \<open>
  \<^verbatim>\<open>v.k\<close> on a value. The source applies it only to values it has already tested
  truthy, where a primitive or an array has no own property of the names used
  (\<^verbatim>\<open>data\<close>, \<^verbatim>\<open>id\<close>).
\<close>

fun js_member :: "jsval \<Rightarrow> string \<Rightarrow> jsval" where
  "js_member (JObj kvs) k = (case map_of kvs k of None \<Rightarrow> JUndefined | Some v \<Rightarrow> v)"
| "js_member v k = JUndefined"

text \<open>\<^verbatim>\<open>v?.k\<close>: \<^verbatim>\<open>undefined\<close> when \<open>v\<close> is \<^verbatim>\<open>undefined\<close> or \<^verbatim>\<open>null\<close>.\<close>

fun js_optional_member :: "jsval \<Rightarrow> string \<Rightarrow> jsval" where
  "js_optional_member JUndefined k = JUndefined"
| "js_optional_member JNull k = JUndefined"
| "js_optional_member v k = js_member v k"

text \<open>
  What a \<^verbatim>\<open>throw\<close> (or a rejected promise) carries: an instance of the built-in
  \<^verbatim>\<open>Error\<close> class with its message, an instance of a subclass of \<^verbatim>\<open>Error\<close>
  (a library's own error type) with its \<^verbatim>\<open>name\<close> and message, or any other value.
\<close>

datatype thrown =
    Error string
  | Subclass_Error string string
  | NonError jsval

text \<open>
  The mail provider's SDK call \<^verbatim>\<open>this.client.emails.send(payload)\<close> is external: it is a
  parameter of the model, which either rejects with a thrown value or resolves to a
  response value.
\<close>

datatype provider_outcome = Rejects thrown | Resolves jsval

type_synonym provider = "js_object \<Rightarrow> provider_outcome"

text \<open>Calls to the framework's logger; \<^verbatim>\<open>logger.error\<close> may receive the caught value.\<close>

datatype log_call =
    Log_warn string
  | Log_info string
  | Log_success string
  | Log_error string "thrown option"

text \<open>
  The effects of the code: the payloads handed to the provider, in order, and the
  logger calls, in order.
\<close>

record world =
  outbound :: "js_object list"
  logs :: "log_call list"

text \<open>
  The environment \<^verbatim>\<open>process.env\<close> is a parameter of what reads it;
  \<^verbatim>\<open>process.env.X\<close> is \<^verbatim>\<open>undefined\<close> for a variable that is not set.
\<close>

definition env_var :: "(string \<rightharpoonup> string) \<Rightarrow> string \<Rightarrow> jsval" where
  "env_var env x = (case env x of None \<Rightarrow> JUndefined | Some s \<Rightarrow> JStr s)"

section \<open>The gateway client (\<^verbatim>\<open>src/client.ts\<close>)\<close>

record resend_client =
  config :: js_object

text \<open>
  The constructor of the class \<^verbatim>\<open>Resend\<close> of the mail provider's SDK, which the
  client's constructor calls last. The SDK is not part of the repository: given a falsy
  key it takes \<^verbatim>\<open>RESEND_API_KEY\<close> from the environment, and it throws when it then
  has no key. \<open>None\<close> stands for a constructed handle.
\<close>

definition missing_api_key_message :: string where
  \<open>missing_api_key_message =
     ''Missing API key. Pass it to the constructor `new Resend("re_123")`''\<close>

definition Resend_new :: "jsval \<Rightarrow> (string \<rightharpoonup> string) \<Rightarrow> thrown option" where
  "Resend_new key env =
     (if truthy key then None
      else if truthy (env_var env ''RESEND_API_KEY'') then None
      else Some (Error missing_api_key_message))"

text \<open>
  The constructor: the object literal
  \<^verbatim>\<open>{defaultFrom: 'onboarding@resend.dev', requestTimeout: 10000, ...config}\<close>
  copies every own property of \<open>config\<close> over the two defaults, also one whose value
  is \<^verbatim>\<open>undefined\<close>. After the warning, \<^verbatim>\<open>new Resend(this.config.apiKey)\<close> runs
  unguarded: when it throws, the constructor throws and there is no client. The
  \<^verbatim>\<open>emails.send\<close> of the handle it returns is the provider parameter.
\<close>

definition ResendClient_new ::
  "js_object \<Rightarrow> (string \<rightharpoonup> string) \<Rightarrow> world \<Rightarrow> (thrown + resend_client) \<times> world" where
  "ResendClient_new cfg env w =
     (let this_config =
            [''defaultFrom'' \<mapsto> JStr ''onboarding@resend.dev'',
             ''requestTimeout'' \<mapsto> JNum 10000] ++ cfg;
          w' = (if \<not> truthy (js_get this_config ''apiKey'')
                then w\<lparr>logs := logs w @
                  [Log_warn ''Resend API key not provided. Email functionality will not work.'']\<rparr>
                else w)
      in (case Resend_new (js_get this_config ''apiKey'') env of
            Some error \<Rightarrow> (Inl error, w')
          | None \<Rightarrow> (Inr \<lparr>config = this_config\<rparr>, w')))"

definition isConfigured :: "resend_client \<Rightarrow> bool" where
  "isConfigured c = truthy (js_get (config c) ''apiKey'')"

definition formatEmailOptions :: "resend_client \<Rightarrow> js_object \<Rightarrow> js_object" where
  "formatEmailOptions c options =
     [''from'' \<mapsto> js_or (js_get options ''from'') (js_get (config c) ''defaultFrom''),
      ''to'' \<mapsto> js_get options ''to'',
      ''subject'' \<mapsto> js_get options ''subject'',
      ''html'' \<mapsto> js_get options ''html'',
      ''text'' \<mapsto> js_get options ''text'',
      ''reply_to'' \<mapsto> js_or (js_get options ''replyTo'') (js_get (config c) ''defaultReplyTo''),
      ''cc'' \<mapsto> js_get options ''cc'',
      ''bcc'' \<mapsto> js_get options ''bcc'',
      ''attachments'' \<mapsto> js_get options ''attachments'',
      ''tags'' \<mapsto> js_get options ''tags'']"

text \<open>The messages of the errors the client raises itself.\<close>

definition not_configured_message :: string where
  "not_configured_message =
     ''Resend API key not configured. Please set RESEND_API_KEY in your environment or pass it in the constructor.''"

definition no_content_message :: string where
  "no_content_message = ''Either html or text content must be provided for the email.''"

definition no_template_id_message :: string where
  "no_template_id_message = ''Template ID must be provided for template emails.''"

text \<open>
  \<^verbatim>\<open>error instanceof Error ? error.message : 'Unknown error'\<close>, the message the
  client's \<^verbatim>\<open>catch\<close> blocks extract from what they caught.
\<close>

fun caught_message :: "thrown \<Rightarrow> string" where
  "caught_message (Error m) = m"
| "caught_message (Subclass_Error n m) = m"
| "caught_message (NonError v) = ''Unknown error''"

text \<open>The body of the \<^verbatim>\<open>try\<close> block of \<^verbatim>\<open>sendEmail\<close>.\<close>

definition sendEmail_try ::
  "provider \<Rightarrow> resend_client \<Rightarrow> js_object \<Rightarrow> world \<Rightarrow> (thrown + js_object) \<times> world" where
  "sendEmail_try P c options w =
     (if \<not> isConfigured c then (Inl (Error not_configured_message), w)
      else if \<not> truthy (js_get options ''html'') \<and> \<not> truthy (js_get options ''text'')
      then (Inl (Error no_content_message), w)
      else
        let formattedOptions = formatEmailOptions c options;
            w1 = w\<lparr>outbound := outbound w @ [formattedOptions]\<rparr>
        in (case P formattedOptions of
              Rejects e \<Rightarrow> (Inl e, w1)
            | Resolves response \<Rightarrow>
                if \<not> truthy response then
                  (Inl (Error ''Failed to send email: No response from Resend API''), w1)
                else if \<not> truthy (js_optional_member (js_member response ''data'') ''id'') then
                  (Inl (Error ''Failed to send email: No response from Resend API''), w1)
                else
                  (Inr [''id'' \<mapsto> js_member (js_member response ''data'') ''id'',
                        ''success'' \<mapsto> JBool True], w1)))"

text \<open>
  \<^verbatim>\<open>sendEmail\<close>: whatever the \<^verbatim>\<open>try\<close> block throws is caught, logged and replaced by
  a new \<^verbatim>\<open>Error\<close>.
\<close>

definition ResendClient_sendEmail ::
  "provider \<Rightarrow> resend_client \<Rightarrow> js_object \<Rightarrow> world \<Rightarrow> (thrown + js_object) \<times> world" where
  "ResendClient_sendEmail P c options w =
     (case sendEmail_try P c options w of
        (Inr r, w') \<Rightarrow> (Inr r, w')
      | (Inl error, w') \<Rightarrow>
          let errorMessage = caught_message error
          in (Inl (Error (''Failed to send email: '' @ errorMessage)),
              w'\<lparr>logs := logs w' @ [Log_error (''Failed to send email: '' @ errorMessage) None]\<rparr>))"

text \<open>The body of the \<^verbatim>\<open>try\<close> block of \<^verbatim>\<open>sendTemplateEmail\<close>.\<close>

definition sendTemplateEmail_try ::
  "provider \<Rightarrow> resend_client \<Rightarrow> js_object \<Rightarrow> world \<Rightarrow> (thrown + js_object) \<times> world" where
  "sendTemplateEmail_try P c options w =
     (if \<not> isConfigured c then (Inl (Error not_configured_message), w)
      else if \<not> truthy (js_get options ''templateId'')
      then (Inl (Error no_template_id_message), w)
      else
        let formattedOptions =
              [''from'' \<mapsto> js_or (js_get options ''from'') (js_get (config c) ''defaultFrom''),
               ''to'' \<mapsto> js_get options ''to'',
               ''reply_to'' \<mapsto>
                  js_or (js_get options ''replyTo'') (js_get (config c) ''defaultReplyTo''),
               ''cc'' \<mapsto> js_get options ''cc'',
               ''bcc'' \<mapsto> js_get options ''bcc'',
               ''tags'' \<mapsto> js_get options ''tags'',
               ''template'' \<mapsto> js_get options ''templateId'',
               ''data'' \<mapsto> js_get options ''templateData''];
            w1 = w\<lparr>outbound := outbound w @ [formattedOptions]\<rparr>
        in (case P formattedOptions of
              Rejects e \<Rightarrow> (Inl e, w1)
            | Resolves response \<Rightarrow>
                if \<not> truthy response then
                  (Inl (Error ''Failed to send template email: No response from Resend API''), w1)
                else if \<not> truthy (js_optional_member (js_member response ''data'') ''id'') then
                  (Inl (Error ''Failed to send template email: No response from Resend API''), w1)
                else
                  (Inr [''id'' \<mapsto> js_member (js_member response ''data'') ''id'',
                        ''success'' \<mapsto> JBool True], w1)))"

definition ResendClient_sendTemplateEmail ::
  "provider \<Rightarrow> resend_client \<Rightarrow> js_object \<Rightarrow> world \<Rightarrow> (thrown + js_object) \<times> world" where
  "ResendClient_sendTemplateEmail P c options w =
     (case sendTemplateEmail_try P c options w of
        (Inr r, w') \<Rightarrow> (Inr r, w')
      | (Inl error, w') \<Rightarrow>
          let errorMessage = caught_message error
          in (Inl (Error (''Failed to send template email: '' @ errorMessage)),
              w'\<lparr>logs := logs w' @
                [Log_error (''Failed to send template email: '' @ errorMessage) None]\<rparr>))"

section \<open>The tool adapter (\<^verbatim>\<open>src/plugin.ts\<close>)\<close>

subsection \<open>String helpers of the JavaScript runtime\<close>

text \<open>Decimal rendering of a number, as a template literal does it.\<close>

definition digit :: "nat \<Rightarrow> char" where
  "digit d = ''0123456789'' ! d"

function decimal :: "nat \<Rightarrow> string" where
  "decimal n = (if 10 \<le> n then decimal (n div 10) @ [digit (n mod 10)] else [digit n])"
  by pat_completeness auto
termination
  by (relation "measure (\<lambda>n. n)") auto

declare decimal.simps [simp del]

definition Number_toString :: "int \<Rightarrow> string" where
  "Number_toString i = (if 0 \<le> i then decimal (nat i) else CHR ''-'' # decimal (nat (- i)))"

text \<open>\<^verbatim>\<open>xs.join(sep)\<close> on an array of strings.\<close>

fun join :: "string \<Rightarrow> string list \<Rightarrow> string" where
  "join sep [] = []"
| "join sep [x] = x"
| "join sep (x # y # ys) = x @ sep @ join sep (y # ys)"

text \<open>
  \<^verbatim>\<open>s.replace(pat, rep)\<close> with a string pattern: the first occurrence of \<open>pat\<close>,
  wherever it stands, is replaced.
\<close>

fun replace :: "string \<Rightarrow> string \<Rightarrow> string \<Rightarrow> string" where
  "replace [] pat rep = (if pat = [] then rep else [])"
| "replace (c # cs) pat rep =
     (if take (length pat) (c # cs) = pat then rep @ drop (length pat) (c # cs)
      else c # replace cs pat rep)"

text \<open>
  \<^verbatim>\<open>String(v)\<close>: an array joins its elements with commas, \<^verbatim>\<open>undefined\<close> and
  \<^verbatim>\<open>null\<close> elements rendering as the empty string.
\<close>

fun js_String :: "jsval \<Rightarrow> string"
  and js_join :: "jsval list \<Rightarrow> string"
  and js_element :: "jsval \<Rightarrow> string" where
  "js_String JUndefined = ''undefined''"
| "js_String JNull = ''null''"
| "js_String (JBool b) = (if b then ''true'' else ''false'')"
| "js_String (JNum n) = Number_toString n"
| "js_String (JStr s) = s"
| "js_String (JArr xs) = js_join xs"
| "js_String (JObj kvs) = ''[object Object]''"
| "js_join [] = []"
| "js_join [x] = js_element x"
| "js_join (x # y # ys) = js_element x @ '','' @ js_join (y # ys)"
| "js_element JUndefined = []"
| "js_element JNull = []"
| "js_element (JBool b) = js_String (JBool b)"
| "js_element (JNum n) = js_String (JNum n)"
| "js_element (JStr s) = js_String (JStr s)"
| "js_element (JArr xs) = js_String (JArr xs)"
| "js_element (JObj kvs) = js_String (JObj kvs)"

text \<open>
  \<^verbatim>\<open>String(error)\<close> and \<^verbatim>\<open>`${error}`\<close> on a caught value; an \<^verbatim>\<open>Error\<close> instance
  renders as its name, a colon and its message.
\<close>

fun String_thrown :: "thrown \<Rightarrow> string" where
  "String_thrown (Error m) = (if m = [] then ''Error'' else ''Error: '' @ m)"
| "String_thrown (Subclass_Error n m) =
     (if n = [] then m else if m = [] then n else n @ '': '' @ m)"
| "String_thrown (NonError v) = js_String v"

subsection \<open>Manifests and tool descriptors\<close>

record property_schema =
  prop_type :: "string option"
  prop_description :: "string option"

text \<open>
  The \<^verbatim>\<open>parameters\<close> of a manifest. \<open>properties\<close> lists the entries in the order of
  \<^verbatim>\<open>Object.entries\<close>.
\<close>

record parameters_schema =
  schema_type :: string
  properties :: "(string \<times> property_schema) list option"
  required :: "string list option"

record manifest =
  manifest_name :: string
  manifest_description :: string
  manifest_parameters :: parameters_schema

record ToolParameterSchema =
  param_name :: string
  param_type :: string
  param_description :: string
  param_required :: bool

text \<open>
  The \<^verbatim>\<open>execute\<close> function of a tool: the closure that \<^verbatim>\<open>initializeTools\<close> builds,
  which captures the manifest's name (and \<^verbatim>\<open>this\<close>), or a function supplied by the
  host with a tool it registers.
\<close>

datatype executor = Resend_execute string | Host_execute nat

record Plugin =
  tool_name :: string
  tool_description :: string
  tool_parameters :: "ToolParameterSchema list"
  tool_execute :: executor

text \<open>
  A JavaScript \<^verbatim>\<open>Map\<close> keeps its entries in insertion order: \<^verbatim>\<open>set\<close> on an existing
  key replaces the value in place, on a new key appends an entry.
\<close>

fun Map_set :: "'k \<Rightarrow> 'v \<Rightarrow> ('k \<times> 'v) list \<Rightarrow> ('k \<times> 'v) list" where
  "Map_set k v [] = [(k, v)]"
| "Map_set k v ((k', v') # es) =
     (if k' = k then (k, v) # es else (k', v') # Map_set k v es)"

fun Map_has :: "'k \<Rightarrow> ('k \<times> 'v) list \<Rightarrow> bool" where
  "Map_has k [] = False"
| "Map_has k ((k', v') # es) = (if k' = k then True else Map_has k es)"

fun Map_delete :: "'k \<Rightarrow> ('k \<times> 'v) list \<Rightarrow> ('k \<times> 'v) list" where
  "Map_delete k [] = []"
| "Map_delete k ((k', v') # es) = (if k' = k then es else (k', v') # Map_delete k es)"

definition Map_keys :: "('k \<times> 'v) list \<Rightarrow> 'k list" where
  "Map_keys es = map fst es"

definition Map_values :: "('k \<times> 'v) list \<Rightarrow> 'v list" where
  "Map_values es = map snd es"

definition property :: "string \<Rightarrow> string \<Rightarrow> property_schema" where
  "property t d = \<lparr>prop_type = Some t, prop_description = Some d\<rparr>"

definition getManifests :: "manifest list" where
  "getManifests =
     [\<lparr>manifest_name = ''resend_send_email'',
       manifest_description = ''Send an email using Resend'',
       manifest_parameters =
         \<lparr>schema_type = ''object'',
          properties = Some
            [(''to'', property ''string''
                ''Recipient email address or comma-separated list of addresses''),
             (''subject'', property ''string'' ''Email subject line''),
             (''html'', property ''string'' ''HTML content of the email''),
             (''text'', property ''string'' ''Plain text content of the email''),
             (''from'', property ''string'' ''Sender email address (overrides default)''),
             (''replyTo'', property ''string'' ''Reply-to email address (overrides default)''),
             (''cc'', property ''string''
                ''CC email address or comma-separated list of addresses''),
             (''bcc'', property ''string''
                ''BCC email address or comma-separated list of addresses'')],
          required = Some [''to'', ''subject'']\<rparr>\<rparr>,
      \<lparr>manifest_name = ''resend_send_template_email'',
       manifest_description = ''Send an email using a Resend template'',
       manifest_parameters =
         \<lparr>schema_type = ''object'',
          properties = Some
            [(''to'', property ''string''
                ''Recipient email address or comma-separated list of addresses''),
             (''templateId'', property ''string'' ''ID of the email template to use''),
             (''templateData'', property ''object'' ''Data to populate the template with''),
             (''from'', property ''string'' ''Sender email address (overrides default)''),
             (''replyTo'', property ''string'' ''Reply-to email address (overrides default)''),
             (''cc'', property ''string''
                ''CC email address or comma-separated list of addresses''),
             (''bcc'', property ''string''
                ''BCC email address or comma-separated list of addresses'')],
          required = Some [''to'', ''templateId'', ''templateData'']\<rparr>\<rparr>]"

text \<open>
  \<^verbatim>\<open>convertParameters\<close>: the loop over \<^verbatim>\<open>Object.entries(params.properties)\<close> pushes one
  descriptor per entry onto \<open>result\<close>.
\<close>

fun convertParameters_loop ::
  "string list option \<Rightarrow> (string \<times> property_schema) list \<Rightarrow> ToolParameterSchema list \<Rightarrow>
   ToolParameterSchema list" where
  "convertParameters_loop req [] result = result"
| "convertParameters_loop req ((name, prop) # entries) result =
     (let validType =
            (case prop_type prop of
               None \<Rightarrow> ''string''
             | Some type \<Rightarrow>
                 if type \<in> set [''string'', ''number'', ''boolean'', ''object'', ''array'']
                 then type else ''string'')
      in convertParameters_loop req entries
           (result @
            [\<lparr>param_name = name,
              param_type = validType,
              param_description =
                (case prop_description prop of
                   None \<Rightarrow> []
                 | Some d \<Rightarrow> if d \<noteq> [] then d else []),
              param_required =
                (case req of None \<Rightarrow> False | Some names \<Rightarrow> name \<in> set names)\<rparr>]))"

definition convertParameters :: "parameters_schema option \<Rightarrow> ToolParameterSchema list" where
  "convertParameters params =
     (case params of
        None \<Rightarrow> []
      | Some ps \<Rightarrow>
          (case properties ps of
             None \<Rightarrow> []
           | Some entries \<Rightarrow> convertParameters_loop (required ps) entries []))"

subsection \<open>The plugin object\<close>

record PluginConfig =
  config_name :: string
  config_description :: string
  config_version :: string
  config_tools :: "Plugin list"

text \<open>
  The fields of \<^verbatim>\<open>ResendPlugin\<close> that change; \<^verbatim>\<open>name\<close> and \<^verbatim>\<open>description\<close> are
  constants. \<open>client = None\<close> is \<^verbatim>\<open>this.client === null\<close>; \<open>registry\<close> is the
  \<^verbatim>\<open>Map\<close> \<^verbatim>\<open>this.tools\<close>; \<open>plugin_config\<close> is \<^verbatim>\<open>this.config\<close>.
\<close>

record ResendPlugin =
  client :: "resend_client option"
  resendConfig :: js_object
  registry :: "(string \<times> Plugin) list"
  plugin_config :: PluginConfig

definition make_tool :: "manifest \<Rightarrow> Plugin" where
  "make_tool m =
     \<lparr>tool_name = manifest_name m,
      tool_description = manifest_description m,
      tool_parameters = convertParameters (Some (manifest_parameters m)),
      tool_execute = Resend_execute (manifest_name m)\<rparr>"

fun initializeTools_loop :: "manifest list \<Rightarrow> (string \<times> Plugin) list \<Rightarrow> (string \<times> Plugin) list" where
  "initializeTools_loop [] tools = tools"
| "initializeTools_loop (m # ms) tools =
     initializeTools_loop ms (Map_set (manifest_name m) (make_tool m) tools)"

definition initializeTools :: "ResendPlugin \<Rightarrow> ResendPlugin" where
  "initializeTools p =
     (let tools = initializeTools_loop getManifests (registry p)
      in p\<lparr>registry := tools,
            plugin_config := (plugin_config p)\<lparr>config_tools := Map_values tools\<rparr>\<rparr>)"

text \<open>
  The constructor. Without a configuration argument the configuration is read from the
  environment: an object literal in which all three keys are present, with the value
  \<^verbatim>\<open>undefined\<close> for a variable that is not set.
\<close>

definition ResendPlugin_new :: "js_object option \<Rightarrow> (string \<rightharpoonup> string) \<Rightarrow> ResendPlugin" where
  "ResendPlugin_new cfg env =
     initializeTools
       \<lparr>client = None,
        resendConfig =
          (case cfg of
             Some c \<Rightarrow> c
           | None \<Rightarrow>
               [''apiKey'' \<mapsto> env_var env ''RESEND_API_KEY'',
                ''defaultFrom'' \<mapsto> env_var env ''RESEND_DEFAULT_FROM'',
                ''defaultReplyTo'' \<mapsto> env_var env ''RESEND_DEFAULT_REPLY_TO'']),
        registry = [],
        plugin_config =
          \<lparr>config_name = ''resend'',
           config_description = ''Resend email integration for Astreus agents'',
           config_version = ''1.0.0'',
           config_tools = []\<rparr>\<rparr>"

definition logToolsSummary :: "ResendPlugin \<Rightarrow> world \<Rightarrow> world" where
  "logToolsSummary p w =
     (let toolNames = Map_keys (registry p)
      in w\<lparr>logs := logs w @
           [Log_info (''Resend plugin registered '' @ decimal (length toolNames) @
                      '' tools: '' @ join '', '' toolNames)]\<rparr>)"

text \<open>
  \<^verbatim>\<open>init\<close>: when the client's constructor throws, \<^verbatim>\<open>this.client\<close> is not assigned
  and keeps its value. Otherwise the client is assigned before it is checked, so it stays
  assigned when the check throws. Whatever the \<^verbatim>\<open>try\<close> block throws is logged and
  replaced by a new \<^verbatim>\<open>Error\<close>.
\<close>

definition init ::
  "ResendPlugin \<Rightarrow> (string \<rightharpoonup> string) \<Rightarrow> world \<Rightarrow> (thrown + unit) \<times> ResendPlugin \<times> world" where
  "init p env w =
     (case ResendClient_new (resendConfig p) env w of
        (Inl error, w1) \<Rightarrow>
          (Inl (Error (''Resend plugin initialization failed: '' @ String_thrown error)),
           p,
           w1\<lparr>logs := logs w1 @
             [Log_error ''Failed to initialize Resend plugin:'' (Some error)]\<rparr>)
      | (Inr c, w1) \<Rightarrow>
          let p1 = p\<lparr>client := Some c\<rparr>
          in if \<not> isConfigured c then
               let error = Error ''Resend client is not properly configured. Check your API key.''
               in (Inl (Error (''Resend plugin initialization failed: '' @ String_thrown error)),
                   p1,
                   w1\<lparr>logs := logs w1 @
                     [Log_error ''Failed to initialize Resend plugin:'' (Some error)]\<rparr>)
             else
               let p2 = initializeTools p1;
                   w2 = logToolsSummary p2 w1
               in (Inr (), p2,
                   w2\<lparr>logs := logs w2 @
                     [Log_success ''Resend email plugin initialized successfully'']\<rparr>))"

definition not_initialized_message :: string where
  "not_initialized_message = ''Resend client not initialized. Call init() first.''"

text \<open>
  \<^verbatim>\<open>error instanceof Error ? error.message : String(error)\<close>, the message the plugin's
  \<^verbatim>\<open>catch\<close> blocks extract.
\<close>

fun plugin_caught_message :: "thrown \<Rightarrow> string" where
  "plugin_caught_message (Error m) = m"
| "plugin_caught_message (Subclass_Error n m) = m"
| "plugin_caught_message (NonError v) = String_thrown (NonError v)"

definition ResendPlugin_sendEmail ::
  "provider \<Rightarrow> ResendPlugin \<Rightarrow> js_object \<Rightarrow> world \<Rightarrow> (thrown + js_object) \<times> world" where
  "ResendPlugin_sendEmail P p params w =
     (case client p of
        None \<Rightarrow> (Inl (Error not_initialized_message), w)
      | Some c \<Rightarrow>
          let options =
                [''to'' \<mapsto> js_get params ''to'',
                 ''subject'' \<mapsto> js_get params ''subject'',
                 ''html'' \<mapsto> js_get params ''html'',
                 ''text'' \<mapsto> js_get params ''text'',
                 ''from'' \<mapsto> js_get params ''from'',
                 ''replyTo'' \<mapsto> js_get params ''replyTo'',
                 ''cc'' \<mapsto> js_get params ''cc'',
                 ''bcc'' \<mapsto> js_get params ''bcc'']
          in (case ResendClient_sendEmail P c options w of
                (Inr r, w') \<Rightarrow> (Inr r, w')
              | (Inl error, w') \<Rightarrow>
                  let errorMessage = plugin_caught_message error
                  in (Inl (Error (''Failed to send email: '' @ errorMessage)),
                      w'\<lparr>logs := logs w' @
                        [Log_error (''Failed to send email: '' @ errorMessage) None]\<rparr>)))"

definition ResendPlugin_sendTemplateEmail ::
  "provider \<Rightarrow> ResendPlugin \<Rightarrow> js_object \<Rightarrow> world \<Rightarrow> (thrown + js_object) \<times> world" where
  "ResendPlugin_sendTemplateEmail P p params w =
     (case client p of
        None \<Rightarrow> (Inl (Error not_initialized_message), w)
      | Some c \<Rightarrow>
          let options =
                [''to'' \<mapsto> js_get params ''to'',
                 ''templateId'' \<mapsto> js_get params ''templateId'',
                 ''templateData'' \<mapsto> js_or (js_get params ''templateData'') (JObj []),
                 ''from'' \<mapsto> js_get params ''from'',
                 ''replyTo'' \<mapsto> js_get params ''replyTo'',
                 ''cc'' \<mapsto> js_get params ''cc'',
                 ''bcc'' \<mapsto> js_get params ''bcc'']
          in (case ResendClient_sendTemplateEmail P c options w of
                (Inr r, w') \<Rightarrow> (Inr r, w')
              | (Inl error, w') \<Rightarrow>
                  let errorMessage = plugin_caught_message error
                  in (Inl (Error (''Failed to send template email: '' @ errorMessage)),
                      w'\<lparr>logs := logs w' @
                        [Log_error (''Failed to send template email: '' @ errorMessage) None]\<rparr>)))"

text \<open>
  The \<^verbatim>\<open>execute\<close> closure built for the manifest named \<open>name\<close>. It reads
  \<^verbatim>\<open>this.client\<close> when it runs, so it sees the plugin as it is at the call. The guard
  stands before the \<^verbatim>\<open>try\<close>; what the \<^verbatim>\<open>try\<close> throws is logged and thrown again, wrapped
  when it is not an \<^verbatim>\<open>Error\<close>. The test \<^verbatim>\<open>result === params\<close> replaces the result by a
  shallow copy, which is the same value.
\<close>

definition execute ::
  "provider \<Rightarrow> ResendPlugin \<Rightarrow> string \<Rightarrow> js_object \<Rightarrow> world \<Rightarrow> (thrown + js_object) \<times> world" where
  "execute P p name params w =
     (if client p = None then (Inl (Error not_initialized_message), w)
      else
        let methodName = replace name ''resend_'' []
        in (case (if methodName = ''send_email'' then ResendPlugin_sendEmail P p params w
                  else if methodName = ''send_template_email''
                  then ResendPlugin_sendTemplateEmail P p params w
                  else (Inl (Error (''Unknown method: '' @ methodName)), w)) of
              (Inr result, w') \<Rightarrow> (Inr result, w')
            | (Inl error, w') \<Rightarrow>
                let w'' = w'\<lparr>logs := logs w' @
                       [Log_error (''Error executing tool '' @ name @ '':'') (Some error)]\<rparr>
                in (case error of
                      NonError v \<Rightarrow>
                        (Inl (Error (''Error executing '' @ methodName @ '': '' @
                                     String_thrown error)), w'')
                    | _ \<Rightarrow> (Inl error, w''))))"

definition getTools :: "ResendPlugin \<Rightarrow> Plugin list" where
  "getTools p = Map_values (registry p)"

definition registerTool :: "Plugin \<Rightarrow> ResendPlugin \<Rightarrow> ResendPlugin" where
  "registerTool tool p =
     (let tools = Map_set (tool_name tool) tool (registry p)
      in p\<lparr>registry := tools,
            plugin_config := (plugin_config p)\<lparr>config_tools := Map_values tools\<rparr>\<rparr>)"

definition removeTool :: "string \<Rightarrow> ResendPlugin \<Rightarrow> bool \<times> ResendPlugin" where
  "removeTool name p =
     (let result = Map_has name (registry p);
          tools = Map_delete name (registry p)
      in (result,
          p\<lparr>registry := tools,
            plugin_config := (plugin_config p)\<lparr>config_tools := Map_values tools\<rparr>\<rparr>))"

subsection \<open>The lifecycle of the adapter\<close>

text \<open>
  The calls a host can make on a plugin object, and their effect on the plugin and the
  world, in an environment \<open>env\<close>; a thrown error leaves the object as the call left it.
\<close>

datatype plugin_call =
    Call_init
  | Call_registerTool Plugin
  | Call_removeTool string
  | Call_execute string js_object
  | Call_sendEmail js_object
  | Call_sendTemplateEmail js_object

fun call ::
  "provider \<Rightarrow> (string \<rightharpoonup> string) \<Rightarrow> plugin_call \<Rightarrow> ResendPlugin \<times> world \<Rightarrow>
   ResendPlugin \<times> world" where
  "call P env Call_init (p, w) = snd (init p env w)"
| "call P env (Call_registerTool tool) (p, w) = (registerTool tool p, w)"
| "call P env (Call_removeTool name) (p, w) = (snd (removeTool name p), w)"
| "call P env (Call_execute name params) (p, w) = (p, snd (execute P p name params w))"
| "call P env (Call_sendEmail params) (p, w) = (p, snd (ResendPlugin_sendEmail P p params w))"
| "call P env (Call_sendTemplateEmail params) (p, w) =
     (p, snd (ResendPlugin_sendTemplateEmail P p params w))"

fun calls ::
  "provider \<Rightarrow> (string \<rightharpoonup> string) \<Rightarrow> plugin_call list \<Rightarrow> ResendPlugin \<times> world \<Rightarrow>
   ResendPlugin \<times> world" where
  "calls P env [] s = s"
| "calls P env (x # xs) s = calls P env xs (call P env x s)"

text \<open>
  The state Initialized: the client has been constructed and is configured.
\<close>

definition initialized :: "ResendPlugin \<Rightarrow> bool" where
  "initialized p = (case client p of None \<Rightarrow> False | Some c \<Rightarrow> isConfigured c)"

section \<open>Example inputs\<close>

definition world0 :: world where
  "world0 = \<lparr>outbound = [], logs = []\<rparr>"

text \<open>A provider that accepts every payload and issues the identifier \<^verbatim>\<open>abc123\<close>.\<close>

definition provider_abc123 :: provider where
  "provider_abc123 payload =
     Resolves (JObj [(''data'', JObj [(''id'', JStr ''abc123'')]), (''error'', JNull)])"

text \<open>A parameter map with a property of an unrecognised type and no description.\<close>

definition example_schema :: parameters_schema where
  "example_schema =
     \<lparr>schema_type = ''object'',
      properties = Some
        [(''to'', property ''string'' ''Recipient''),
         (''count'', \<lparr>prop_type = Some ''integer'', prop_description = None\<rparr>)],
      required = Some [''to'']\<rparr>"

text \<open>A tool supplied by the host under the name of a tool of the plugin.\<close>

definition example_tool :: Plugin where
  "example_tool =
     \<lparr>tool_name = ''resend_send_email'',
      tool_description = ''A replacement supplied by the host'',
      tool_parameters = [],
      tool_execute = Host_execute 0\<rparr>"

text \<open>An environment in which \<^verbatim>\<open>RESEND_API_KEY\<close> is set.\<close>

definition env_with_key :: "string \<rightharpoonup> string" where
  "env_with_key = [''RESEND_API_KEY'' \<mapsto> ''re_env'']"

text \<open>
  The client that the constructor returns for the configuration
  \<^verbatim>\<open>{apiKey: 're_123'}\<close>, in any environment.
\<close>

definition client_re_123 :: resend_client where
  "client_re_123 =
     \<lparr>config =
        [''defaultFrom'' \<mapsto> JStr ''onboarding@resend.dev'',
         ''requestTimeout'' \<mapsto> JNum 10000] ++ [''apiKey'' \<mapsto> JStr ''re_123'']\<rparr>"

text \<open>
  The client that the constructor returns for the empty configuration \<^verbatim>\<open>{}\<close> where
  the environment holds \<^verbatim>\<open>RESEND_API_KEY\<close>.
\<close>

definition client_without_key :: resend_client where
  "client_without_key =
     \<lparr>config =
        [''defaultFrom'' \<mapsto> JStr ''onboarding@resend.dev'',
         ''requestTimeout'' \<mapsto> JNum 10000] ++ Map.empty\<rparr>"

text \<open>
  The client that the constructor returns for the configuration
  \<^verbatim>\<open>{apiKey: 're_123', defaultReplyTo: 'help@b.com'}\<close>.
\<close>

definition client_reply_to :: resend_client where
  "client_reply_to =
     \<lparr>config =
        [''defaultFrom'' \<mapsto> JStr ''onboarding@resend.dev'',
         ''requestTimeout'' \<mapsto> JNum 10000] ++
        [''apiKey'' \<mapsto> JStr ''re_123'', ''defaultReplyTo'' \<mapsto> JStr ''help@b.com'']\<rparr>"

text \<open>
  The client that the constructor returns for the configuration
  \<^verbatim>\<open>{apiKey: 're_123', defaultFrom: undefined}\<close>.
\<close>

definition client_undefined_from :: resend_client where
  "client_undefined_from =
     \<lparr>config =
        [''defaultFrom'' \<mapsto> JStr ''onboarding@resend.dev'',
         ''requestTimeout'' \<mapsto> JNum 10000] ++
        [''apiKey'' \<mapsto> JStr ''re_123'', ''defaultFrom'' \<mapsto> JUndefined]\<rparr>"

section \<open>Properties of the gateway client\<close>

subsection \<open>Auxiliary facts\<close>

lemma js_get_upd: "js_get (m(k \<mapsto> v)) k' = (if k' = k then v else js_get m k')"
  by (simp add: js_get_def)

lemma js_get_empty: "js_get Map.empty k = JUndefined"
  by (simp add: js_get_def)

lemma js_get_defaults_apiKey:
  "js_get ([''defaultFrom'' \<mapsto> JStr ''onboarding@resend.dev'',
            ''requestTimeout'' \<mapsto> JNum 10000] ++ cfg) ''apiKey'' = js_get cfg ''apiKey''"
  by (simp add: js_get_def map_add_def split: option.splits)

lemma ResendClient_new_with_key:
  "truthy (js_get cfg ''apiKey'') \<Longrightarrow>
   ResendClient_new cfg env w =
     (Inr \<lparr>config = [''defaultFrom'' \<mapsto> JStr ''onboarding@resend.dev'',
                      ''requestTimeout'' \<mapsto> JNum 10000] ++ cfg\<rparr>, w)"
  by (simp add: ResendClient_new_def Let_def js_get_defaults_apiKey Resend_new_def)

lemma ResendClient_new_env_key:
  "\<not> truthy (js_get cfg ''apiKey'') \<Longrightarrow> truthy (env_var env ''RESEND_API_KEY'') \<Longrightarrow>
   ResendClient_new cfg env w =
     (Inr \<lparr>config = [''defaultFrom'' \<mapsto> JStr ''onboarding@resend.dev'',
                      ''requestTimeout'' \<mapsto> JNum 10000] ++ cfg\<rparr>,
      w\<lparr>logs := logs w @
        [Log_warn ''Resend API key not provided. Email functionality will not work.'']\<rparr>)"
  by (simp add: ResendClient_new_def Let_def js_get_defaults_apiKey Resend_new_def)

lemma ResendClient_new_throws:
  "\<not> truthy (js_get cfg ''apiKey'') \<Longrightarrow> \<not> truthy (env_var env ''RESEND_API_KEY'') \<Longrightarrow>
   ResendClient_new cfg env w =
     (Inl (Error missing_api_key_message),
      w\<lparr>logs := logs w @
        [Log_warn ''Resend API key not provided. Email functionality will not work.'']\<rparr>)"
  by (simp add: ResendClient_new_def Let_def js_get_defaults_apiKey Resend_new_def)

lemma config_new:
  "ResendClient_new cfg env w = (Inr c, w1) \<Longrightarrow>
   config c =
     [''defaultFrom'' \<mapsto> JStr ''onboarding@resend.dev'',
      ''requestTimeout'' \<mapsto> JNum 10000] ++ cfg"
  by (auto simp add: ResendClient_new_def Let_def split: option.splits)

lemma isConfigured_new:
  "ResendClient_new cfg env w = (Inr c, w1) \<Longrightarrow>
   isConfigured c = truthy (js_get cfg ''apiKey'')"
  by (simp add: isConfigured_def config_new js_get_defaults_apiKey)

lemma constructed_re_123:
  "ResendClient_new [''apiKey'' \<mapsto> JStr ''re_123''] env w = (Inr client_re_123, w)"
  by (simp add: ResendClient_new_with_key js_get_def client_re_123_def)

lemma constructed_without_key:
  "ResendClient_new Map.empty env_with_key w =
     (Inr client_without_key,
      w\<lparr>logs := logs w @
        [Log_warn ''Resend API key not provided. Email functionality will not work.'']\<rparr>)"
  by (simp add: ResendClient_new_env_key js_get_def client_without_key_def env_with_key_def
      env_var_def)

lemma configured_re_123: "isConfigured client_re_123"
  by (simp add: isConfigured_new [OF constructed_re_123] js_get_def)

lemma not_configured_without_key: "\<not> isConfigured client_without_key"
  by (simp add: isConfigured_new [OF constructed_without_key] js_get_def)

lemma constructed_re_123_fst [simp]:
  "fst (ResendClient_new [''apiKey'' \<mapsto> JStr ''re_123''] env w) = Inr client_re_123"
  by (simp add: constructed_re_123)

lemma constructed_without_key_fst [simp]:
  "fst (ResendClient_new Map.empty env_with_key w) = Inr client_without_key"
  by (simp add: constructed_without_key)

lemma messages_differ: "not_configured_message \<noteq> no_content_message"
  by (simp add: not_configured_message_def no_content_message_def)

lemma sendEmail_unconfigured:
  "\<not> isConfigured c \<Longrightarrow>
   ResendClient_sendEmail P c options w =
     (Inl (Error (''Failed to send email: '' @ not_configured_message)),
      w\<lparr>logs := logs w @
        [Log_error (''Failed to send email: '' @ not_configured_message) None]\<rparr>)"
  by (simp add: ResendClient_sendEmail_def sendEmail_try_def)

lemma sendTemplateEmail_unconfigured:
  "\<not> isConfigured c \<Longrightarrow>
   ResendClient_sendTemplateEmail P c options w =
     (Inl (Error (''Failed to send template email: '' @ not_configured_message)),
      w\<lparr>logs := logs w @
        [Log_error (''Failed to send template email: '' @ not_configured_message) None]\<rparr>)"
  by (simp add: ResendClient_sendTemplateEmail_def sendTemplateEmail_try_def)

lemma sendEmail_no_content:
  "isConfigured c \<Longrightarrow> \<not> truthy (js_get options ''html'') \<Longrightarrow>
   \<not> truthy (js_get options ''text'') \<Longrightarrow>
   ResendClient_sendEmail P c options w =
     (Inl (Error (''Failed to send email: '' @ no_content_message)),
      w\<lparr>logs := logs w @
        [Log_error (''Failed to send email: '' @ no_content_message) None]\<rparr>)"
  by (simp add: ResendClient_sendEmail_def sendEmail_try_def)

lemma sendEmail_outbound:
  "outbound (snd (ResendClient_sendEmail P c options w)) =
     outbound w @
       (if isConfigured c \<and>
           (truthy (js_get options ''html'') \<or> truthy (js_get options ''text''))
        then [formatEmailOptions c options] else [])"
  by (auto simp add: ResendClient_sendEmail_def sendEmail_try_def Let_def
      split: provider_outcome.splits)

lemma sendEmail_success:
  "isConfigured c \<Longrightarrow>
   truthy (js_get options ''html'') \<or> truthy (js_get options ''text'') \<Longrightarrow>
   P (formatEmailOptions c options) = Resolves response \<Longrightarrow> truthy response \<Longrightarrow>
   truthy (js_optional_member (js_member response ''data'') ''id'') \<Longrightarrow>
   ResendClient_sendEmail P c options w =
     (Inr [''id'' \<mapsto> js_member (js_member response ''data'') ''id'',
           ''success'' \<mapsto> JBool True],
      w\<lparr>outbound := outbound w @ [formatEmailOptions c options]\<rparr>)"
  by (auto simp add: ResendClient_sendEmail_def sendEmail_try_def Let_def)

subsection \<open>Configuration\<close>

text \<open>
  What holds of a client that the constructor has returned: \<open>isConfigured\<close> holds
  exactly when the \<^verbatim>\<open>apiKey\<close> of the configuration is truthy, which for a configuration
  typed as \<^verbatim>\<open>apiKey?: string\<close> is when a non-empty credential is present; on a client
  that is not configured, \<^verbatim>\<open>sendEmail\<close> and \<^verbatim>\<open>sendTemplateEmail\<close> fail with the
  configuration error and hand nothing to the provider. \<open>isConfigured\<close> reads the
  configuration only: it takes no world and returns none.
\<close>

lemma constructed_client_configuration:
  "(ResendClient_new cfg env w0 = (Inr c0, w1) \<longrightarrow>
      (isConfigured c0 \<longleftrightarrow> truthy (js_get cfg ''apiKey'')) \<and>
      ((cfg ''apiKey'' = None \<or> cfg ''apiKey'' = Some JUndefined \<or>
        (\<exists>s. cfg ''apiKey'' = Some (JStr s))) \<longrightarrow>
         (isConfigured c0 \<longleftrightarrow> (\<exists>s. s \<noteq> [] \<and> cfg ''apiKey'' = Some (JStr s))))) \<and>
   (\<not> isConfigured c \<longrightarrow>
      fst (ResendClient_sendEmail P c options w) =
         Inl (Error (''Failed to send email: '' @ not_configured_message)) \<and>
      outbound (snd (ResendClient_sendEmail P c options w)) = outbound w \<and>
      fst (ResendClient_sendTemplateEmail P c options w) =
         Inl (Error (''Failed to send template email: '' @ not_configured_message)) \<and>
      outbound (snd (ResendClient_sendTemplateEmail P c options w)) = outbound w)"
proof (intro conjI impI)
  assume "ResendClient_new cfg env w0 = (Inr c0, w1)"
  then show "isConfigured c0 \<longleftrightarrow> truthy (js_get cfg ''apiKey'')"
    by (rule isConfigured_new)
next
  assume "ResendClient_new cfg env w0 = (Inr c0, w1)"
    and "cfg ''apiKey'' = None \<or> cfg ''apiKey'' = Some JUndefined \<or>
      (\<exists>s. cfg ''apiKey'' = Some (JStr s))"
  then show "isConfigured c0 \<longleftrightarrow> (\<exists>s. s \<noteq> [] \<and> cfg ''apiKey'' = Some (JStr s))"
    by (auto simp add: isConfigured_new js_get_def)
qed (simp_all add: sendEmail_unconfigured sendTemplateEmail_unconfigured)

text \<open>
  Claim C2 holds of every client that exists, but the code does not reach it for every
  configuration lacking a credential: the constructor warns that email will not work and
  then calls the SDK's constructor unguarded. Where the environment has no
  \<^verbatim>\<open>RESEND_API_KEY\<close> either, that call throws, so the constructor throws the SDK's
  error: there is no client of which \<open>isConfigured\<close> could return false, and the
  configuration error of the send methods, which asks for \<^verbatim>\<open>RESEND_API_KEY\<close> to be
  set, cannot be reached. Through the plugin, \<^verbatim>\<open>init\<close> fails with the SDK's message.
\<close>

theorem ResendClient_new_without_key_throws:
  "ResendClient_new Map.empty Map.empty world0 =
     (Inl (Error missing_api_key_message),
      world0\<lparr>logs :=
        [Log_warn ''Resend API key not provided. Email functionality will not work.'']\<rparr>) \<and>
   fst (ResendClient_new [''apiKey'' \<mapsto> JStr []] Map.empty world0) =
     Inl (Error missing_api_key_message) \<and>
   fst (init (ResendPlugin_new None Map.empty) Map.empty world0) =
     Inl (Error (''Resend plugin initialization failed: Error: '' @ missing_api_key_message)) \<and>
   client (fst (snd (init (ResendPlugin_new None Map.empty) Map.empty world0))) = None"
proof -
  have a: "ResendClient_new Map.empty Map.empty world0 =
     (Inl (Error missing_api_key_message),
      world0\<lparr>logs :=
        [Log_warn ''Resend API key not provided. Email functionality will not work.'']\<rparr>)"
    by (simp add: ResendClient_new_throws js_get_def env_var_def world0_def)
  have b: "fst (ResendClient_new [''apiKey'' \<mapsto> JStr []] Map.empty world0) =
     Inl (Error missing_api_key_message)"
    by (simp add: ResendClient_new_throws js_get_def env_var_def)
  have r: "resendConfig (ResendPlugin_new None Map.empty) =
     [''apiKey'' \<mapsto> JUndefined, ''defaultFrom'' \<mapsto> JUndefined,
      ''defaultReplyTo'' \<mapsto> JUndefined]"
    by (simp add: ResendPlugin_new_def initializeTools_def Let_def env_var_def)
  have n: "client (ResendPlugin_new None Map.empty) = None"
    by (simp add: ResendPlugin_new_def initializeTools_def Let_def)
  have t: "ResendClient_new (resendConfig (ResendPlugin_new None Map.empty)) Map.empty world0 =
     (Inl (Error missing_api_key_message),
      world0\<lparr>logs := logs world0 @
        [Log_warn ''Resend API key not provided. Email functionality will not work.'']\<rparr>)"
    unfolding r by (rule ResendClient_new_throws) (simp_all add: js_get_def env_var_def)
  have m: "missing_api_key_message \<noteq> []"
    by (simp add: missing_api_key_message_def)
  have c: "fst (init (ResendPlugin_new None Map.empty) Map.empty world0) =
     Inl (Error (''Resend plugin initialization failed: Error: '' @ missing_api_key_message))"
    by (simp add: init_def t m)
  have d: "client (fst (snd (init (ResendPlugin_new None Map.empty) Map.empty world0))) = None"
    by (simp add: init_def t n)
  from a b c d show ?thesis by simp
qed

subsection \<open>Validation of the content\<close>

text \<open>
  Claim C3, as stated, fails on a client that is not configured (one constructed without
  an \<^verbatim>\<open>apiKey\<close> where the environment holds \<^verbatim>\<open>RESEND_API_KEY\<close>): the configuration
  check comes first, so a call with neither \<^verbatim>\<open>html\<close> nor \<^verbatim>\<open>text\<close> fails with the
  configuration error, not with the validation error.
\<close>

theorem sendEmail_without_content_unconfigured:
  "fst (ResendClient_new Map.empty env_with_key world0) = Inr client_without_key \<and>
   js_get [''to'' \<mapsto> JStr ''a@b.com'', ''subject'' \<mapsto> JStr ''Hi''] ''html'' = JUndefined \<and>
   js_get [''to'' \<mapsto> JStr ''a@b.com'', ''subject'' \<mapsto> JStr ''Hi''] ''text'' = JUndefined \<and>
   fst (ResendClient_sendEmail provider_abc123 client_without_key
          [''to'' \<mapsto> JStr ''a@b.com'', ''subject'' \<mapsto> JStr ''Hi''] world0) =
     Inl (Error (''Failed to send email: '' @ not_configured_message)) \<and>
   fst (ResendClient_sendEmail provider_abc123 client_without_key
          [''to'' \<mapsto> JStr ''a@b.com'', ''subject'' \<mapsto> JStr ''Hi''] world0) \<noteq>
     Inl (Error (''Failed to send email: '' @ no_content_message))"
  by (simp add: sendEmail_unconfigured not_configured_without_key js_get_def messages_differ)

text \<open>
  Claim C3, amended. On a configured client, a call to \<^verbatim>\<open>sendEmail\<close> in which both
  \<^verbatim>\<open>html\<close> and \<^verbatim>\<open>text\<close> are absent (or otherwise falsy) fails with the validation
  error, and nothing is handed to the provider.
\<close>

theorem sendEmail_without_content:
  "isConfigured c \<Longrightarrow> \<not> truthy (js_get options ''html'') \<Longrightarrow>
   \<not> truthy (js_get options ''text'') \<Longrightarrow>
   fst (ResendClient_sendEmail P c options w) =
     Inl (Error (''Failed to send email: '' @ no_content_message)) \<and>
   outbound (snd (ResendClient_sendEmail P c options w)) = outbound w"
  by (simp add: sendEmail_no_content)

theorem sendEmail_without_content_witness:
  "fst (ResendClient_new [''apiKey'' \<mapsto> JStr ''re_123''] Map.empty world0) = Inr client_re_123 \<and>
   isConfigured client_re_123 \<and>
   \<not> truthy (js_get [''to'' \<mapsto> JStr ''a@b.com'', ''subject'' \<mapsto> JStr ''Hi''] ''html'') \<and>
   \<not> truthy (js_get [''to'' \<mapsto> JStr ''a@b.com'', ''subject'' \<mapsto> JStr ''Hi''] ''text'') \<and>
   fst (ResendClient_sendEmail provider_abc123
          client_re_123
          [''to'' \<mapsto> JStr ''a@b.com'', ''subject'' \<mapsto> JStr ''Hi''] world0) =
     Inl (Error (''Failed to send email: '' @ no_content_message)) \<and>
   outbound (snd (ResendClient_sendEmail provider_abc123
          client_re_123
          [''to'' \<mapsto> JStr ''a@b.com'', ''subject'' \<mapsto> JStr ''Hi''] world0)) = []"
proof -
  have h: "\<not> truthy (js_get [''to'' \<mapsto> JStr ''a@b.com'', ''subject'' \<mapsto> JStr ''Hi''] ''html'')"
    by (simp add: js_get_def)
  have t: "\<not> truthy (js_get [''to'' \<mapsto> JStr ''a@b.com'', ''subject'' \<mapsto> JStr ''Hi''] ''text'')"
    by (simp add: js_get_def)
  show ?thesis
    using configured_re_123 h t
      sendEmail_without_content [OF configured_re_123 h t, of provider_abc123 world0]
    by (simp add: world0_def)
qed

subsection \<open>Recipient and subject\<close>

text \<open>
  Claim C7, as stated, fails: \<^verbatim>\<open>sendEmail\<close> never looks at \<^verbatim>\<open>to\<close> or
  \<^verbatim>\<open>subject\<close>. A call with neither, on a configured client and with an \<^verbatim>\<open>html\<close>
  body, reaches the provider and succeeds when the provider issues an identifier.
\<close>

theorem sendEmail_without_recipient_succeeds:
  "fst (ResendClient_new [''apiKey'' \<mapsto> JStr ''re_123''] Map.empty world0) = Inr client_re_123 \<and>
   js_get [''html'' \<mapsto> JStr ''<p>hi</p>''] ''to'' = JUndefined \<and>
   js_get [''html'' \<mapsto> JStr ''<p>hi</p>''] ''subject'' = JUndefined \<and>
   ResendClient_sendEmail provider_abc123
      client_re_123
      [''html'' \<mapsto> JStr ''<p>hi</p>''] world0 =
     (Inr [''id'' \<mapsto> JStr ''abc123'', ''success'' \<mapsto> JBool True],
      world0\<lparr>outbound := [formatEmailOptions
         client_re_123
         [''html'' \<mapsto> JStr ''<p>hi</p>'']]\<rparr>)"
proof -
  have "ResendClient_sendEmail provider_abc123
      client_re_123
      [''html'' \<mapsto> JStr ''<p>hi</p>''] world0 =
     (Inr [''id'' \<mapsto> js_member (js_member
              (JObj [(''data'', JObj [(''id'', JStr ''abc123'')]), (''error'', JNull)])
              ''data'') ''id'',
           ''success'' \<mapsto> JBool True],
      world0\<lparr>outbound := outbound world0 @ [formatEmailOptions
         client_re_123
         [''html'' \<mapsto> JStr ''<p>hi</p>'']]\<rparr>)"
    by (rule sendEmail_success [OF configured_re_123])
       (simp_all add: js_get_def provider_abc123_def)
  then show ?thesis by (simp add: js_get_def world0_def)
qed

text \<open>
  Claim C7, amended. \<^verbatim>\<open>sendEmail\<close> does not validate \<^verbatim>\<open>to\<close> or \<^verbatim>\<open>subject\<close>: on a
  configured client, whenever \<^verbatim>\<open>html\<close> or \<^verbatim>\<open>text\<close> is truthy, exactly one payload is
  handed to the provider, carrying \<^verbatim>\<open>to\<close> and \<^verbatim>\<open>subject\<close> as the call gave them
  (\<^verbatim>\<open>undefined\<close> when missing), and the call succeeds whenever the provider's response
  holds a usable identifier.
\<close>

theorem sendEmail_recipient_not_validated:
  "isConfigured c \<Longrightarrow>
   truthy (js_get options ''html'') \<or> truthy (js_get options ''text'') \<Longrightarrow>
   outbound (snd (ResendClient_sendEmail P c options w)) =
     outbound w @ [formatEmailOptions c options] \<and>
   formatEmailOptions c options ''to'' = Some (js_get options ''to'') \<and>
   formatEmailOptions c options ''subject'' = Some (js_get options ''subject'') \<and>
   (\<forall>response. P (formatEmailOptions c options) = Resolves response \<and> truthy response \<and>
        truthy (js_optional_member (js_member response ''data'') ''id'') \<longrightarrow>
      fst (ResendClient_sendEmail P c options w) =
        Inr [''id'' \<mapsto> js_member (js_member response ''data'') ''id'',
             ''success'' \<mapsto> JBool True])"
  by (simp add: sendEmail_outbound sendEmail_success formatEmailOptions_def)

theorem sendEmail_recipient_not_validated_witness:
  "fst (ResendClient_new [''apiKey'' \<mapsto> JStr ''re_123''] Map.empty world0) = Inr client_re_123 \<and>
   isConfigured client_re_123 \<and>
   truthy (js_get [''text'' \<mapsto> JStr ''hi''] ''text'') \<and>
   js_get [''text'' \<mapsto> JStr ''hi''] ''to'' = JUndefined \<and>
   outbound (snd (ResendClient_sendEmail provider_abc123
      client_re_123
      [''text'' \<mapsto> JStr ''hi''] world0)) =
     [formatEmailOptions client_re_123
        [''text'' \<mapsto> JStr ''hi'']] \<and>
   formatEmailOptions client_re_123
      [''text'' \<mapsto> JStr ''hi''] ''to'' = Some JUndefined \<and>
   fst (ResendClient_sendEmail provider_abc123
      client_re_123
      [''text'' \<mapsto> JStr ''hi''] world0) =
     Inr [''id'' \<mapsto> JStr ''abc123'', ''success'' \<mapsto> JBool True]"
proof -
  have t: "truthy (js_get [''text'' \<mapsto> JStr ''hi''] ''html'') \<or>
           truthy (js_get [''text'' \<mapsto> JStr ''hi''] ''text'')"
    by (simp add: js_get_def)
  show ?thesis
    using configured_re_123
      sendEmail_recipient_not_validated [OF configured_re_123 t, of provider_abc123 world0]
    by (simp add: js_get_def world0_def provider_abc123_def)
qed

subsection \<open>The payload of a raw send\<close>

text \<open>
  Claim C1, as stated, fails for a \<^verbatim>\<open>from\<close> that is given but empty: \<^verbatim>\<open>||\<close> takes
  the configured default for every falsy value, so the payload does not carry the
  \<^verbatim>\<open>from\<close> of the call.
\<close>

theorem sendEmail_empty_from_replaced:
  "fst (ResendClient_new [''apiKey'' \<mapsto> JStr ''re_123''] Map.empty world0) = Inr client_re_123 \<and>
   [''to'' \<mapsto> JStr ''a@b.com'', ''subject'' \<mapsto> JStr ''Hi'', ''html'' \<mapsto> JStr ''<p>hi</p>'',
    ''from'' \<mapsto> JStr []] ''from'' = Some (JStr []) \<and>
   map (\<lambda>payload. payload ''from'')
     (outbound (snd (ResendClient_sendEmail provider_abc123
        client_re_123
        [''to'' \<mapsto> JStr ''a@b.com'', ''subject'' \<mapsto> JStr ''Hi'',
         ''html'' \<mapsto> JStr ''<p>hi</p>'', ''from'' \<mapsto> JStr []] world0))) =
     [Some (JStr ''onboarding@resend.dev'')]"
  by (simp add: sendEmail_outbound isConfigured_def client_re_123_def js_get_def
      formatEmailOptions_def js_or_def world0_def)

lemma formatEmailOptions_ignores_reply_to:
  "formatEmailOptions c (options(''reply_to'' := x)) = formatEmailOptions c options"
  by (simp add: formatEmailOptions_def js_get_def)

lemma plugin_sendEmail_ignores_reply_to:
  "ResendPlugin_sendEmail P p (params(''reply_to'' := x)) w = ResendPlugin_sendEmail P p params w"
  by (simp add: ResendPlugin_sendEmail_def js_get_def split: option.splits)

text \<open>
  Claim C1, amended. Every payload that \<^verbatim>\<open>sendEmail\<close> hands to the provider is
  \<open>formatEmailOptions c options\<close>. Its \<^verbatim>\<open>from\<close> is the \<^verbatim>\<open>from\<close> of the call when
  that is truthy (given and not empty) and the configured default otherwise; its reply-to
  value stands under the wire name \<^verbatim>\<open>reply_to\<close> (there is no \<^verbatim>\<open>replyTo\<close> property) and
  is the \<^verbatim>\<open>replyTo\<close> of the call when truthy, the configured default reply-to
  otherwise; a property \<^verbatim>\<open>reply_to\<close> of the call is never read; \<^verbatim>\<open>cc\<close>, \<^verbatim>\<open>bcc\<close>,
  \<^verbatim>\<open>attachments\<close> and \<^verbatim>\<open>tags\<close> are passed through unchanged. The tool adapter's
  \<^verbatim>\<open>sendEmail\<close> does not read a parameter \<^verbatim>\<open>reply_to\<close> either.
\<close>

theorem formatEmailOptions_fields:
  "formatEmailOptions c options ''from'' =
     Some (if truthy (js_get options ''from'') then js_get options ''from''
           else js_get (config c) ''defaultFrom'') \<and>
   formatEmailOptions c options ''reply_to'' =
     Some (if truthy (js_get options ''replyTo'') then js_get options ''replyTo''
           else js_get (config c) ''defaultReplyTo'') \<and>
   formatEmailOptions c options ''replyTo'' = None \<and>
   formatEmailOptions c (options(''reply_to'' := x)) = formatEmailOptions c options \<and>
   formatEmailOptions c options ''cc'' = Some (js_get options ''cc'') \<and>
   formatEmailOptions c options ''bcc'' = Some (js_get options ''bcc'') \<and>
   formatEmailOptions c options ''attachments'' = Some (js_get options ''attachments'') \<and>
   formatEmailOptions c options ''tags'' = Some (js_get options ''tags'') \<and>
   outbound (snd (ResendClient_sendEmail P c options w)) =
     outbound w @
       (if isConfigured c \<and>
           (truthy (js_get options ''html'') \<or> truthy (js_get options ''text''))
        then [formatEmailOptions c options] else []) \<and>
   ResendPlugin_sendEmail P p (params(''reply_to'' := x)) w' =
     ResendPlugin_sendEmail P p params w'"
proof -
  have "formatEmailOptions c (options(''reply_to'' := x)) = formatEmailOptions c options"
    by (rule formatEmailOptions_ignores_reply_to)
  moreover have "ResendPlugin_sendEmail P p (params(''reply_to'' := x)) w' =
     ResendPlugin_sendEmail P p params w'"
    by (rule plugin_sendEmail_ignores_reply_to)
  moreover have "outbound (snd (ResendClient_sendEmail P c options w)) =
     outbound w @
       (if isConfigured c \<and>
           (truthy (js_get options ''html'') \<or> truthy (js_get options ''text''))
        then [formatEmailOptions c options] else [])"
    by (rule sendEmail_outbound)
  ultimately show ?thesis
    by (simp add: formatEmailOptions_def js_or_def)
qed

theorem formatEmailOptions_fields_witness:
  "fst (ResendClient_new [''apiKey'' \<mapsto> JStr ''re_123'',
                          ''defaultReplyTo'' \<mapsto> JStr ''help@b.com''] Map.empty world0) =
     Inr client_reply_to \<and>
   formatEmailOptions client_reply_to
      [''to'' \<mapsto> JStr ''a@b.com'', ''html'' \<mapsto> JStr ''<p>hi</p>'',
       ''from'' \<mapsto> JStr ''me@b.com'', ''reply_to'' \<mapsto> JStr ''other@b.com'',
       ''cc'' \<mapsto> JStr ''cc@b.com''] ''from'' = Some (JStr ''me@b.com'') \<and>
   formatEmailOptions client_reply_to
      [''to'' \<mapsto> JStr ''a@b.com'', ''html'' \<mapsto> JStr ''<p>hi</p>'',
       ''from'' \<mapsto> JStr ''me@b.com'', ''reply_to'' \<mapsto> JStr ''other@b.com'',
       ''cc'' \<mapsto> JStr ''cc@b.com''] ''reply_to'' = Some (JStr ''help@b.com'') \<and>
   formatEmailOptions client_reply_to
      [''to'' \<mapsto> JStr ''a@b.com'', ''html'' \<mapsto> JStr ''<p>hi</p>'',
       ''from'' \<mapsto> JStr ''me@b.com'', ''reply_to'' \<mapsto> JStr ''other@b.com'',
       ''cc'' \<mapsto> JStr ''cc@b.com''] ''cc'' = Some (JStr ''cc@b.com'')"
proof -
  have c: "fst (ResendClient_new [''apiKey'' \<mapsto> JStr ''re_123'',
                          ''defaultReplyTo'' \<mapsto> JStr ''help@b.com''] Map.empty world0) =
     Inr client_reply_to"
    by (simp add: ResendClient_new_with_key js_get_def client_reply_to_def)
  show ?thesis
    using c formatEmailOptions_fields
      [of client_reply_to
          "[''to'' \<mapsto> JStr ''a@b.com'', ''html'' \<mapsto> JStr ''<p>hi</p>'',
            ''from'' \<mapsto> JStr ''me@b.com'', ''reply_to'' \<mapsto> JStr ''other@b.com'',
            ''cc'' \<mapsto> JStr ''cc@b.com'']"]
    by (simp add: js_get_def client_reply_to_def)
qed

subsection \<open>The payload of a templated send\<close>

lemma sendTemplateEmail_outbound:
  "isConfigured c \<Longrightarrow> truthy (js_get options ''templateId'') \<Longrightarrow>
   outbound (snd (ResendClient_sendTemplateEmail P c options w)) =
     outbound w @
       [[''from'' \<mapsto> js_or (js_get options ''from'') (js_get (config c) ''defaultFrom''),
         ''to'' \<mapsto> js_get options ''to'',
         ''reply_to'' \<mapsto>
            js_or (js_get options ''replyTo'') (js_get (config c) ''defaultReplyTo''),
         ''cc'' \<mapsto> js_get options ''cc'',
         ''bcc'' \<mapsto> js_get options ''bcc'',
         ''tags'' \<mapsto> js_get options ''tags'',
         ''template'' \<mapsto> js_get options ''templateId'',
         ''data'' \<mapsto> js_get options ''templateData'']]"
  by (auto simp add: ResendClient_sendTemplateEmail_def sendTemplateEmail_try_def Let_def
      split: provider_outcome.splits)

lemma sendTemplateEmail_no_outbound:
  "\<not> (isConfigured c \<and> truthy (js_get options ''templateId'')) \<Longrightarrow>
   outbound (snd (ResendClient_sendTemplateEmail P c options w)) = outbound w"
  by (auto simp add: ResendClient_sendTemplateEmail_def sendTemplateEmail_try_def Let_def)

text \<open>
  Claim C5. On a configured client and with a truthy \<^verbatim>\<open>templateId\<close>,
  \<^verbatim>\<open>sendTemplateEmail\<close> hands the provider exactly one payload; it holds the
  template identifier under \<^verbatim>\<open>template\<close> and the merge data under \<^verbatim>\<open>data\<close>, and
  has no \<^verbatim>\<open>subject\<close>, \<^verbatim>\<open>html\<close> or \<^verbatim>\<open>text\<close> property. In every other case nothing
  is handed to the provider.
\<close>

theorem sendTemplateEmail_payload:
  "(isConfigured c \<and> truthy (js_get options ''templateId'') \<longrightarrow>
      (\<exists>payload.
         outbound (snd (ResendClient_sendTemplateEmail P c options w)) = outbound w @ [payload] \<and>
         payload ''template'' = Some (js_get options ''templateId'') \<and>
         payload ''data'' = Some (js_get options ''templateData'') \<and>
         payload ''subject'' = None \<and> payload ''html'' = None \<and> payload ''text'' = None)) \<and>
   (\<not> (isConfigured c \<and> truthy (js_get options ''templateId'')) \<longrightarrow>
      outbound (snd (ResendClient_sendTemplateEmail P c options w)) = outbound w)"
  by (simp add: sendTemplateEmail_outbound sendTemplateEmail_no_outbound)

theorem sendTemplateEmail_payload_witness:
  "fst (ResendClient_new [''apiKey'' \<mapsto> JStr ''re_123''] Map.empty world0) = Inr client_re_123 \<and>
   isConfigured client_re_123 \<and>
   truthy (js_get [''to'' \<mapsto> JStr ''a@b.com'', ''templateId'' \<mapsto> JStr ''t1'',
                   ''templateData'' \<mapsto> JObj [(''name'', JStr ''X'')]] ''templateId'') \<and>
   (\<exists>payload.
      outbound (snd (ResendClient_sendTemplateEmail provider_abc123
        client_re_123
        [''to'' \<mapsto> JStr ''a@b.com'', ''templateId'' \<mapsto> JStr ''t1'',
         ''templateData'' \<mapsto> JObj [(''name'', JStr ''X'')]] world0)) = [payload] \<and>
      payload ''template'' = Some (JStr ''t1'') \<and>
      payload ''data'' = Some (JObj [(''name'', JStr ''X'')]) \<and>
      payload ''subject'' = None \<and> payload ''html'' = None \<and> payload ''text'' = None)"
  using configured_re_123
    sendTemplateEmail_payload
      [of "client_re_123"
          "[''to'' \<mapsto> JStr ''a@b.com'', ''templateId'' \<mapsto> JStr ''t1'',
            ''templateData'' \<mapsto> JObj [(''name'', JStr ''X'')]]" provider_abc123 world0]
  by (simp add: configured_re_123 js_get_def world0_def)

subsection \<open>Failures of a raw send\<close>

lemma js_optional_member_eq: "js_optional_member v k = js_member v k"
  by (cases v) simp_all

lemma sendEmail_failure:
  "fst (sendEmail_try P c options w) = Inl t \<Longrightarrow>
   fst (ResendClient_sendEmail P c options w) =
     Inl (Error (''Failed to send email: '' @ caught_message t))"
  by (cases "sendEmail_try P c options w") (simp add: ResendClient_sendEmail_def Let_def)

lemma sendEmail_try_rejects:
  "isConfigured c \<Longrightarrow>
   truthy (js_get options ''html'') \<or> truthy (js_get options ''text'') \<Longrightarrow>
   P (formatEmailOptions c options) = Rejects t \<Longrightarrow>
   fst (sendEmail_try P c options w) = Inl t"
  by (auto simp add: sendEmail_try_def Let_def)

lemma sendEmail_try_no_id:
  "isConfigured c \<Longrightarrow>
   truthy (js_get options ''html'') \<or> truthy (js_get options ''text'') \<Longrightarrow>
   P (formatEmailOptions c options) = Resolves response \<Longrightarrow>
   \<not> truthy response \<or> \<not> truthy (js_optional_member (js_member response ''data'') ''id'') \<Longrightarrow>
   fst (sendEmail_try P c options w) =
     Inl (Error ''Failed to send email: No response from Resend API'')"
  by (auto simp add: sendEmail_try_def Let_def)

lemma sendEmail_result_cases:
  "(\<exists>m. fst (ResendClient_sendEmail P c options w) = Inl (Error (''Failed to send email: '' @ m))) \<or>
   (\<exists>i. truthy i \<and> fst (ResendClient_sendEmail P c options w) =
      Inr [''id'' \<mapsto> i, ''success'' \<mapsto> JBool True])"
proof (cases "sendEmail_try P c options w")
  case (Pair r w')
  show ?thesis
  proof (cases r)
    case (Inl t)
    with Pair show ?thesis by (simp add: ResendClient_sendEmail_def Let_def)
  next
    case (Inr res)
    with Pair have "\<exists>i. truthy i \<and> res = [''id'' \<mapsto> i, ''success'' \<mapsto> JBool True]"
      by (auto simp add: sendEmail_try_def Let_def js_optional_member_eq
          split: if_splits provider_outcome.splits)
    with Pair Inr show ?thesis by (auto simp add: ResendClient_sendEmail_def)
  qed
qed

text \<open>
  Claim C4, as stated, fails when the provider rejects with a value that is not an
  \<^verbatim>\<open>Error\<close> instance, here a plain object with a \<^verbatim>\<open>message\<close> property: the
  \<^verbatim>\<open>catch\<close> block takes the fixed text \<^verbatim>\<open>Unknown error\<close>, and the message of the
  original failure is lost.
\<close>

theorem sendEmail_drops_non_Error_message:
  "fst (ResendClient_new [''apiKey'' \<mapsto> JStr ''re_123''] Map.empty world0) = Inr client_re_123 \<and>
   fst (ResendClient_sendEmail
          (\<lambda>payload. Rejects (NonError (JObj [(''name'', JStr ''application_error''),
                                            (''message'', JStr ''Unable to fetch data'')])))
          client_re_123
          [''to'' \<mapsto> JStr ''a@b.com'', ''subject'' \<mapsto> JStr ''Hi'',
           ''html'' \<mapsto> JStr ''<p>hi</p>''] world0) =
     Inl (Error ''Failed to send email: Unknown error'') \<and>
   fst (ResendClient_sendEmail
          (\<lambda>payload. Rejects (NonError (JObj [(''name'', JStr ''application_error''),
                                            (''message'', JStr ''Unable to fetch data'')])))
          client_re_123
          [''to'' \<mapsto> JStr ''a@b.com'', ''subject'' \<mapsto> JStr ''Hi'',
           ''html'' \<mapsto> JStr ''<p>hi</p>''] world0) \<noteq>
     Inl (Error (''Failed to send email: '' @ ''Unable to fetch data''))"
proof -
  have "fst (sendEmail_try
          (\<lambda>payload. Rejects (NonError (JObj [(''name'', JStr ''application_error''),
                                            (''message'', JStr ''Unable to fetch data'')])))
          client_re_123
          [''to'' \<mapsto> JStr ''a@b.com'', ''subject'' \<mapsto> JStr ''Hi'',
           ''html'' \<mapsto> JStr ''<p>hi</p>''] world0) =
        Inl (NonError (JObj [(''name'', JStr ''application_error''),
                             (''message'', JStr ''Unable to fetch data'')]))"
    by (rule sendEmail_try_rejects [OF configured_re_123]) (simp_all add: js_get_def)
  from sendEmail_failure [OF this] show ?thesis by simp
qed

text \<open>
  Claim C4, amended. When the provider call completes with no response or with no usable
  identifier, \<^verbatim>\<open>sendEmail\<close> fails with the delivery error. Every failure of
  \<^verbatim>\<open>sendEmail\<close> is a new plain \<^verbatim>\<open>Error\<close> whose message is
  \<^verbatim>\<open>Failed to send email: \<close> followed by the message of the original failure when
  that is an \<^verbatim>\<open>Error\<close> instance (of whatever class), and by the fixed text
  \<^verbatim>\<open>Unknown error\<close> when it is any other value; no error of the provider's own type
  reaches the caller. A call that does not fail returns an identifier that is truthy.
\<close>

theorem sendEmail_errors_normalized:
  "(isConfigured c \<and> (truthy (js_get options ''html'') \<or> truthy (js_get options ''text'')) \<longrightarrow>
      (\<forall>response. P (formatEmailOptions c options) = Resolves response \<and>
          (\<not> truthy response \<or>
           \<not> truthy (js_optional_member (js_member response ''data'') ''id'')) \<longrightarrow>
         fst (ResendClient_sendEmail P c options w) =
           Inl (Error (''Failed to send email: '' @
                       ''Failed to send email: No response from Resend API''))) \<and>
      (\<forall>m. P (formatEmailOptions c options) = Rejects (Error m) \<longrightarrow>
         fst (ResendClient_sendEmail P c options w) =
           Inl (Error (''Failed to send email: '' @ m))) \<and>
      (\<forall>n m. P (formatEmailOptions c options) = Rejects (Subclass_Error n m) \<longrightarrow>
         fst (ResendClient_sendEmail P c options w) =
           Inl (Error (''Failed to send email: '' @ m))) \<and>
      (\<forall>v. P (formatEmailOptions c options) = Rejects (NonError v) \<longrightarrow>
         fst (ResendClient_sendEmail P c options w) =
           Inl (Error (''Failed to send email: '' @ ''Unknown error'')))) \<and>
   (\<forall>m. fst (sendEmail_try P c options w) = Inl (Error m) \<longrightarrow>
      fst (ResendClient_sendEmail P c options w) = Inl (Error (''Failed to send email: '' @ m))) \<and>
   (\<forall>n m. fst (sendEmail_try P c options w) = Inl (Subclass_Error n m) \<longrightarrow>
      fst (ResendClient_sendEmail P c options w) = Inl (Error (''Failed to send email: '' @ m))) \<and>
   (\<forall>v. fst (sendEmail_try P c options w) = Inl (NonError v) \<longrightarrow>
      fst (ResendClient_sendEmail P c options w) =
        Inl (Error (''Failed to send email: '' @ ''Unknown error''))) \<and>
   ((\<exists>m. fst (ResendClient_sendEmail P c options w) =
           Inl (Error (''Failed to send email: '' @ m))) \<or>
    (\<exists>i. truthy i \<and> fst (ResendClient_sendEmail P c options w) =
           Inr [''id'' \<mapsto> i, ''success'' \<mapsto> JBool True]))"
proof (intro conjI impI allI)
  show "(\<exists>m. fst (ResendClient_sendEmail P c options w) =
           Inl (Error (''Failed to send email: '' @ m))) \<or>
    (\<exists>i. truthy i \<and> fst (ResendClient_sendEmail P c options w) =
           Inr [''id'' \<mapsto> i, ''success'' \<mapsto> JBool True])"
    by (rule sendEmail_result_cases)
next
  fix response
  assume "isConfigured c \<and> (truthy (js_get options ''html'') \<or> truthy (js_get options ''text''))"
    and "P (formatEmailOptions c options) = Resolves response \<and>
          (\<not> truthy response \<or>
           \<not> truthy (js_optional_member (js_member response ''data'') ''id''))"
  then have "fst (sendEmail_try P c options w) =
     Inl (Error ''Failed to send email: No response from Resend API'')"
    using sendEmail_try_no_id [of c options P response w] by blast
  from sendEmail_failure [OF this]
  show "fst (ResendClient_sendEmail P c options w) =
           Inl (Error (''Failed to send email: '' @
                       ''Failed to send email: No response from Resend API''))"
    by simp
next
  fix m
  assume "isConfigured c \<and> (truthy (js_get options ''html'') \<or> truthy (js_get options ''text''))"
    and "P (formatEmailOptions c options) = Rejects (Error m)"
  then have "fst (sendEmail_try P c options w) = Inl (Error m)"
    using sendEmail_try_rejects [of c options P _ w] by blast
  from sendEmail_failure [OF this]
  show "fst (ResendClient_sendEmail P c options w) = Inl (Error (''Failed to send email: '' @ m))"
    by simp
next
  fix n m
  assume "isConfigured c \<and> (truthy (js_get options ''html'') \<or> truthy (js_get options ''text''))"
    and "P (formatEmailOptions c options) = Rejects (Subclass_Error n m)"
  then have "fst (sendEmail_try P c options w) = Inl (Subclass_Error n m)"
    using sendEmail_try_rejects [of c options P _ w] by blast
  from sendEmail_failure [OF this]
  show "fst (ResendClient_sendEmail P c options w) = Inl (Error (''Failed to send email: '' @ m))"
    by simp
next
  fix v
  assume "isConfigured c \<and> (truthy (js_get options ''html'') \<or> truthy (js_get options ''text''))"
    and "P (formatEmailOptions c options) = Rejects (NonError v)"
  then have "fst (sendEmail_try P c options w) = Inl (NonError v)"
    using sendEmail_try_rejects [of c options P _ w] by blast
  from sendEmail_failure [OF this]
  show "fst (ResendClient_sendEmail P c options w) =
     Inl (Error (''Failed to send email: '' @ ''Unknown error''))"
    by simp
next
  fix m
  assume "fst (sendEmail_try P c options w) = Inl (Error m)"
  from sendEmail_failure [OF this]
  show "fst (ResendClient_sendEmail P c options w) = Inl (Error (''Failed to send email: '' @ m))"
    by simp
next
  fix n m
  assume "fst (sendEmail_try P c options w) = Inl (Subclass_Error n m)"
  from sendEmail_failure [OF this]
  show "fst (ResendClient_sendEmail P c options w) = Inl (Error (''Failed to send email: '' @ m))"
    by simp
next
  fix v
  assume "fst (sendEmail_try P c options w) = Inl (NonError v)"
  from sendEmail_failure [OF this]
  show "fst (ResendClient_sendEmail P c options w) =
     Inl (Error (''Failed to send email: '' @ ''Unknown error''))"
    by simp
qed


theorem sendEmail_errors_normalized_witness:
  "fst (ResendClient_new [''apiKey'' \<mapsto> JStr ''re_123''] Map.empty world0) = Inr client_re_123 \<and>
   isConfigured client_re_123 \<and>
   truthy (js_get [''to'' \<mapsto> JStr ''a@b.com'', ''subject'' \<mapsto> JStr ''Hi'',
                   ''html'' \<mapsto> JStr ''<p>hi</p>''] ''html'') \<and>
   fst (ResendClient_sendEmail
          (\<lambda>payload. Rejects (Subclass_Error ''FetchError'' ''socket hang up''))
          client_re_123
          [''to'' \<mapsto> JStr ''a@b.com'', ''subject'' \<mapsto> JStr ''Hi'',
           ''html'' \<mapsto> JStr ''<p>hi</p>''] world0) =
     Inl (Error ''Failed to send email: socket hang up'') \<and>
   fst (ResendClient_sendEmail
          (\<lambda>payload. Resolves (JObj [(''data'', JNull),
                                     (''error'', JObj [(''message'', JStr ''Invalid API key'')])]))
          client_re_123
          [''to'' \<mapsto> JStr ''a@b.com'', ''subject'' \<mapsto> JStr ''Hi'',
           ''html'' \<mapsto> JStr ''<p>hi</p>''] world0) =
     Inl (Error ''Failed to send email: Failed to send email: No response from Resend API'') \<and>
   fst (ResendClient_sendEmail
          (\<lambda>payload. Rejects (Error ''fetch failed''))
          client_re_123
          [''to'' \<mapsto> JStr ''a@b.com'', ''subject'' \<mapsto> JStr ''Hi'',
           ''html'' \<mapsto> JStr ''<p>hi</p>''] world0) =
     Inl (Error ''Failed to send email: fetch failed'') \<and>
   fst (ResendClient_sendEmail
          (\<lambda>payload. Rejects (NonError (JStr ''timeout'')))
          client_re_123
          [''to'' \<mapsto> JStr ''a@b.com'', ''subject'' \<mapsto> JStr ''Hi'',
           ''html'' \<mapsto> JStr ''<p>hi</p>''] world0) =
     Inl (Error ''Failed to send email: Unknown error'')"
  using configured_re_123
    sendEmail_errors_normalized
      [of "client_re_123"
          "[''to'' \<mapsto> JStr ''a@b.com'', ''subject'' \<mapsto> JStr ''Hi'',
            ''html'' \<mapsto> JStr ''<p>hi</p>'']"
          "\<lambda>payload. Rejects (Error ''fetch failed'')" world0]
    sendEmail_errors_normalized
      [of "client_re_123"
          "[''to'' \<mapsto> JStr ''a@b.com'', ''subject'' \<mapsto> JStr ''Hi'',
            ''html'' \<mapsto> JStr ''<p>hi</p>'']"
          "\<lambda>payload. Rejects (NonError (JStr ''timeout''))" world0]
    sendEmail_errors_normalized
      [of "client_re_123"
          "[''to'' \<mapsto> JStr ''a@b.com'', ''subject'' \<mapsto> JStr ''Hi'',
            ''html'' \<mapsto> JStr ''<p>hi</p>'']"
          "\<lambda>payload. Rejects (Subclass_Error ''FetchError'' ''socket hang up'')" world0]
    sendEmail_errors_normalized
      [of "client_re_123"
          "[''to'' \<mapsto> JStr ''a@b.com'', ''subject'' \<mapsto> JStr ''Hi'',
            ''html'' \<mapsto> JStr ''<p>hi</p>'']"
          "\<lambda>payload. Resolves (JObj [(''data'', JNull),
                                     (''error'', JObj [(''message'', JStr ''Invalid API key'')])])"
          world0]
  by (simp add: js_get_def)

subsection \<open>The defaults of the configuration\<close>

lemma resendConfig_initializeTools: "resendConfig (initializeTools p) = resendConfig p"
  by (simp add: initializeTools_def Let_def)

lemma resendConfig_new_env:
  "resendConfig (ResendPlugin_new None env) =
     [''apiKey'' \<mapsto> env_var env ''RESEND_API_KEY'',
      ''defaultFrom'' \<mapsto> env_var env ''RESEND_DEFAULT_FROM'',
      ''defaultReplyTo'' \<mapsto> env_var env ''RESEND_DEFAULT_REPLY_TO'']"
  by (simp add: ResendPlugin_new_def resendConfig_initializeTools)

lemma ResendClient_new_returns:
  "(\<exists>c w1. ResendClient_new cfg env w0 = (Inr c, w1)) \<longleftrightarrow>
     truthy (js_get cfg ''apiKey'') \<or> truthy (env_var env ''RESEND_API_KEY'')"
proof (cases "truthy (js_get cfg ''apiKey'')")
  case True
  then show ?thesis by (simp add: ResendClient_new_with_key)
next
  case False
  then show ?thesis
    by (cases "truthy (env_var env ''RESEND_API_KEY'')")
       (simp_all add: ResendClient_new_env_key ResendClient_new_throws)
qed

text \<open>
  Claim C10. The constructor returns a client exactly when the configuration or the
  environment gives a key. A client constructed from a configuration without a
  \<^verbatim>\<open>defaultFrom\<close> key has the default sender \<^verbatim>\<open>onboarding@resend.dev\<close> (and, without a
  \<^verbatim>\<open>requestTimeout\<close> key, the timeout 10000), so a call without a truthy \<^verbatim>\<open>from\<close>
  produces a payload whose \<^verbatim>\<open>from\<close> is that address. A \<^verbatim>\<open>defaultFrom\<close> key
  present with the value \<^verbatim>\<open>undefined\<close> overrides the default, and the payload's
  \<^verbatim>\<open>from\<close> is then \<^verbatim>\<open>undefined\<close>; the plugin constructed from an environment
  without \<^verbatim>\<open>RESEND_DEFAULT_FROM\<close> passes such a configuration.
\<close>

theorem default_sender:
  "((\<exists>c' w'. ResendClient_new cfg env w0 = (Inr c', w')) \<longleftrightarrow>
      truthy (js_get cfg ''apiKey'') \<or> truthy (env_var env ''RESEND_API_KEY'')) \<and>
   (ResendClient_new cfg env w0 = (Inr c, w1) \<longrightarrow>
      (cfg ''defaultFrom'' = None \<longrightarrow>
         config c ''defaultFrom'' = Some (JStr ''onboarding@resend.dev'') \<and>
         (\<not> truthy (js_get options ''from'') \<longrightarrow>
            formatEmailOptions c options ''from'' = Some (JStr ''onboarding@resend.dev'') \<and>
            (truthy (js_get cfg ''apiKey'') \<and>
             (truthy (js_get options ''html'') \<or> truthy (js_get options ''text'')) \<longrightarrow>
               map (\<lambda>payload. payload ''from'')
                 (outbound (snd (ResendClient_sendEmail P c options w))) =
               map (\<lambda>payload. payload ''from'') (outbound w) @
                 [Some (JStr ''onboarding@resend.dev'')]))) \<and>
      (cfg ''requestTimeout'' = None \<longrightarrow>
         config c ''requestTimeout'' = Some (JNum 10000)) \<and>
      (cfg ''defaultFrom'' = Some JUndefined \<longrightarrow>
         config c ''defaultFrom'' = Some JUndefined \<and>
         (\<not> truthy (js_get options ''from'') \<longrightarrow>
            formatEmailOptions c options ''from'' = Some JUndefined))) \<and>
   (env' ''RESEND_DEFAULT_FROM'' = None \<longrightarrow>
      resendConfig (ResendPlugin_new None env') ''defaultFrom'' = Some JUndefined)"
proof (intro conjI impI)
  show "(\<exists>c' w'. ResendClient_new cfg env w0 = (Inr c', w')) \<longleftrightarrow>
      truthy (js_get cfg ''apiKey'') \<or> truthy (env_var env ''RESEND_API_KEY'')"
    by (rule ResendClient_new_returns)
next
  assume "env' ''RESEND_DEFAULT_FROM'' = None"
  then show "resendConfig (ResendPlugin_new None env') ''defaultFrom'' = Some JUndefined"
    by (simp add: resendConfig_new_env env_var_def)
next
  assume n: "ResendClient_new cfg env w0 = (Inr c, w1)"
  note c = config_new [OF n] and i = isConfigured_new [OF n]
  {
    assume "cfg ''defaultFrom'' = None"
    then show "config c ''defaultFrom'' = Some (JStr ''onboarding@resend.dev'')"
      by (simp add: c map_add_def)
  next
    assume "cfg ''defaultFrom'' = None" and "\<not> truthy (js_get options ''from'')"
    then show "formatEmailOptions c options ''from'' = Some (JStr ''onboarding@resend.dev'')"
      by (simp add: c map_add_def formatEmailOptions_def js_or_def js_get_def)
  next
    assume "cfg ''defaultFrom'' = None" and "\<not> truthy (js_get options ''from'')"
      and "truthy (js_get cfg ''apiKey'') \<and>
        (truthy (js_get options ''html'') \<or> truthy (js_get options ''text''))"
    then show "map (\<lambda>payload. payload ''from'')
                 (outbound (snd (ResendClient_sendEmail P c options w))) =
               map (\<lambda>payload. payload ''from'') (outbound w) @
                 [Some (JStr ''onboarding@resend.dev'')]"
      by (simp add: sendEmail_outbound i c map_add_def formatEmailOptions_def js_or_def
          js_get_def)
  next
    assume "cfg ''requestTimeout'' = None"
    then show "config c ''requestTimeout'' = Some (JNum 10000)"
      by (simp add: c map_add_def)
  next
    assume "cfg ''defaultFrom'' = Some JUndefined"
    then show "config c ''defaultFrom'' = Some JUndefined"
      by (simp add: c map_add_def)
  next
    assume "cfg ''defaultFrom'' = Some JUndefined" and "\<not> truthy (js_get options ''from'')"
    then show "formatEmailOptions c options ''from'' = Some JUndefined"
      by (simp add: c map_add_def formatEmailOptions_def js_or_def js_get_def)
  }
qed

theorem default_sender_witness:
  "ResendClient_new [''apiKey'' \<mapsto> JStr ''re_123''] Map.empty world0 =
     (Inr client_re_123, world0) \<and>
   [''apiKey'' \<mapsto> JStr ''re_123''] ''defaultFrom'' = None \<and>
   \<not> truthy (js_get [''to'' \<mapsto> JStr ''a@b.com'', ''subject'' \<mapsto> JStr ''Hi'',
                     ''html'' \<mapsto> JStr ''<p>hi</p>''] ''from'') \<and>
   config client_re_123 ''requestTimeout'' = Some (JNum 10000) \<and>
   map (\<lambda>payload. payload ''from'')
     (outbound (snd (ResendClient_sendEmail provider_abc123 client_re_123
        [''to'' \<mapsto> JStr ''a@b.com'', ''subject'' \<mapsto> JStr ''Hi'',
         ''html'' \<mapsto> JStr ''<p>hi</p>''] world0))) =
     [Some (JStr ''onboarding@resend.dev'')] \<and>
   ResendClient_new [''apiKey'' \<mapsto> JStr ''re_123'', ''defaultFrom'' \<mapsto> JUndefined]
       Map.empty world0 =
     (Inr client_undefined_from, world0) \<and>
   [''apiKey'' \<mapsto> JStr ''re_123'', ''defaultFrom'' \<mapsto> JUndefined] ''defaultFrom'' =
     Some JUndefined \<and>
   formatEmailOptions client_undefined_from
     [''to'' \<mapsto> JStr ''a@b.com'', ''subject'' \<mapsto> JStr ''Hi'',
      ''html'' \<mapsto> JStr ''<p>hi</p>''] ''from'' = Some JUndefined \<and>
   resendConfig (ResendPlugin_new None [''RESEND_API_KEY'' \<mapsto> ''re_123'']) ''defaultFrom'' =
     Some JUndefined"
proof -
  have a: "ResendClient_new [''apiKey'' \<mapsto> JStr ''re_123''] Map.empty world0 =
     (Inr client_re_123, world0)"
    by (rule constructed_re_123)
  have b: "ResendClient_new [''apiKey'' \<mapsto> JStr ''re_123'', ''defaultFrom'' \<mapsto> JUndefined]
       Map.empty world0 =
     (Inr client_undefined_from, world0)"
    by (simp add: ResendClient_new_with_key js_get_def client_undefined_from_def)
  show ?thesis
    using a b
      default_sender
        [of "[''apiKey'' \<mapsto> JStr ''re_123'']" Map.empty world0 client_re_123 world0
            "[''to'' \<mapsto> JStr ''a@b.com'', ''subject'' \<mapsto> JStr ''Hi'',
              ''html'' \<mapsto> JStr ''<p>hi</p>'']" provider_abc123 world0
            "[''RESEND_API_KEY'' \<mapsto> ''re_123'']"]
      default_sender
        [of "[''apiKey'' \<mapsto> JStr ''re_123'', ''defaultFrom'' \<mapsto> JUndefined]" Map.empty
            world0 client_undefined_from world0
            "[''to'' \<mapsto> JStr ''a@b.com'', ''subject'' \<mapsto> JStr ''Hi'',
              ''html'' \<mapsto> JStr ''<p>hi</p>'']"]
    by (simp add: js_get_def world0_def)
qed

section \<open>Properties of the tool adapter\<close>

subsection \<open>Conversion of the parameter schema\<close>

lemma convertParameters_loop_append:
  "convertParameters_loop req entries result =
     result @ convertParameters_loop req entries []"
proof (induction entries arbitrary: result)
  case Nil
  show ?case by simp
next
  case (Cons e entries)
  obtain n pr where e: "e = (n, pr)" by (cases e)
  show ?case
    unfolding e convertParameters_loop.simps Let_def
    by (subst Cons.IH, subst (2) Cons.IH) simp
qed

lemma convertParameters_loop_length:
  "length (convertParameters_loop req entries result) = length result + length entries"
  by (induction entries arbitrary: result) (auto simp add: Let_def)

lemma convertParameters_loop_nth:
  "i < length entries \<Longrightarrow>
   convertParameters_loop req entries [] ! i =
     \<lparr>param_name = fst (entries ! i),
      param_type =
        (case prop_type (snd (entries ! i)) of
           None \<Rightarrow> ''string''
         | Some t \<Rightarrow>
             if t \<in> {''string'', ''number'', ''boolean'', ''object'', ''array''} then t
             else ''string''),
      param_description =
        (case prop_description (snd (entries ! i)) of None \<Rightarrow> [] | Some d \<Rightarrow> d),
      param_required =
        (case req of None \<Rightarrow> False | Some names \<Rightarrow> fst (entries ! i) \<in> set names)\<rparr>"
proof (induction entries arbitrary: i)
  case Nil
  then show ?case by simp
next
  case (Cons e entries)
  obtain n pr where e: "e = (n, pr)" by (cases e)
  show ?case
  proof (cases i)
    case 0
    then show ?thesis
      unfolding e convertParameters_loop.simps Let_def
      by (subst convertParameters_loop_append) (simp split: option.splits)
  next
    case (Suc j)
    with Cons.prems have j: "j < length entries" by simp
    show ?thesis
      unfolding e convertParameters_loop.simps Let_def Suc
      by (subst convertParameters_loop_append) (simp add: Cons.IH [OF j] split: option.splits)
  qed
qed

text \<open>
  Claim C8. \<^verbatim>\<open>convertParameters\<close> produces exactly one descriptor per property, in the
  order of the entries: its name is the property's name; its type is the declared type
  when that is one of \<^verbatim>\<open>string\<close>, \<^verbatim>\<open>number\<close>, \<^verbatim>\<open>boolean\<close>, \<^verbatim>\<open>object\<close>,
  \<^verbatim>\<open>array\<close>, and \<^verbatim>\<open>string\<close> otherwise (the result is total, there is no error); its
  description is the declared one, or the empty string when absent; it is required exactly
  when the name is a member of the manifest's \<^verbatim>\<open>required\<close> list. Without a parameter
  map or without properties the result is empty.
\<close>

theorem convertParameters_descriptors:
  "convertParameters None = [] \<and>
   (properties ps = None \<longrightarrow> convertParameters (Some ps) = []) \<and>
   (\<forall>entries. properties ps = Some entries \<longrightarrow>
      length (convertParameters (Some ps)) = length entries \<and>
      (\<forall>i < length entries.
         param_name (convertParameters (Some ps) ! i) = fst (entries ! i) \<and>
         param_type (convertParameters (Some ps) ! i) =
           (case prop_type (snd (entries ! i)) of
              None \<Rightarrow> ''string''
            | Some t \<Rightarrow>
                if t \<in> {''string'', ''number'', ''boolean'', ''object'', ''array''} then t
                else ''string'') \<and>
         param_type (convertParameters (Some ps) ! i) \<in>
           {''string'', ''number'', ''boolean'', ''object'', ''array''} \<and>
         param_description (convertParameters (Some ps) ! i) =
           (case prop_description (snd (entries ! i)) of None \<Rightarrow> [] | Some d \<Rightarrow> d) \<and>
         (param_required (convertParameters (Some ps) ! i) \<longleftrightarrow>
            (\<exists>names. required ps = Some names \<and> fst (entries ! i) \<in> set names))))"
proof (intro conjI impI allI)
  show "convertParameters None = []" by (simp add: convertParameters_def)
next
  assume "properties ps = None"
  then show "convertParameters (Some ps) = []" by (simp add: convertParameters_def)
next
  fix entries
  assume "properties ps = Some entries"
  then show "length (convertParameters (Some ps)) = length entries"
    by (simp add: convertParameters_def convertParameters_loop_length)
next
  fix entries i
  assume ps: "properties ps = Some entries" and i: "i < length entries"
  have d: "convertParameters (Some ps) ! i = convertParameters_loop (required ps) entries [] ! i"
    using ps by (simp add: convertParameters_def)
  note n = convertParameters_loop_nth [OF i, of "required ps"]
  show "param_name (convertParameters (Some ps) ! i) = fst (entries ! i)"
    by (simp add: d n)
  show "param_type (convertParameters (Some ps) ! i) =
           (case prop_type (snd (entries ! i)) of
              None \<Rightarrow> ''string''
            | Some t \<Rightarrow>
                if t \<in> {''string'', ''number'', ''boolean'', ''object'', ''array''} then t
                else ''string'')"
    by (simp add: d n)
  show "param_type (convertParameters (Some ps) ! i) \<in>
           {''string'', ''number'', ''boolean'', ''object'', ''array''}"
    unfolding d n by (auto split: option.splits)
  show "param_description (convertParameters (Some ps) ! i) =
           (case prop_description (snd (entries ! i)) of None \<Rightarrow> [] | Some d \<Rightarrow> d)"
    by (simp add: d n)
  show "param_required (convertParameters (Some ps) ! i) \<longleftrightarrow>
            (\<exists>names. required ps = Some names \<and> fst (entries ! i) \<in> set names)"
    by (simp add: d n split: option.splits)
qed

theorem convertParameters_descriptors_witness:
  "properties example_schema =
     Some [(''to'', property ''string'' ''Recipient''),
           (''count'', \<lparr>prop_type = Some ''integer'', prop_description = None\<rparr>)] \<and>
   length (convertParameters (Some example_schema)) = 2 \<and>
   param_name (convertParameters (Some example_schema) ! 0) = ''to'' \<and>
   param_type (convertParameters (Some example_schema) ! 0) = ''string'' \<and>
   param_description (convertParameters (Some example_schema) ! 0) = ''Recipient'' \<and>
   param_required (convertParameters (Some example_schema) ! 0) \<and>
   param_name (convertParameters (Some example_schema) ! 1) = ''count'' \<and>
   param_type (convertParameters (Some example_schema) ! 1) = ''string'' \<and>
   param_description (convertParameters (Some example_schema) ! 1) = [] \<and>
   \<not> param_required (convertParameters (Some example_schema) ! 1)"
  using convertParameters_descriptors [of example_schema]
  by (simp add: example_schema_def property_def All_less_Suc)

subsection \<open>The registry\<close>

lemma Map_has_iff: "Map_has k es \<longleftrightarrow> k \<in> set (Map_keys es)"
  by (induction es) (auto simp add: Map_keys_def)

lemma Map_delete_Map_set:
  "\<not> Map_has k es \<Longrightarrow> Map_delete k (Map_set k v es) = es"
  by (induction es) auto

lemma registry_new:
  "Map_keys (registry (ResendPlugin_new cfg env)) =
     [''resend_send_email'', ''resend_send_template_email'']"
  by (simp add: ResendPlugin_new_def initializeTools_def getManifests_def Map_keys_def Let_def)

text \<open>
  Claim C9, as stated, fails for a tool whose name is already registered:
  \<^verbatim>\<open>registerTool\<close> overwrites the entry of that name and \<^verbatim>\<open>removeTool\<close> deletes it,
  so the tool that the registry held before is gone.
\<close>

theorem register_remove_existing_name:
  "Map_keys (registry (ResendPlugin_new None Map.empty)) =
     [''resend_send_email'', ''resend_send_template_email''] \<and>
   Map_keys (registry (snd (removeTool (tool_name example_tool)
      (registerTool example_tool (ResendPlugin_new None Map.empty))))) =
     [''resend_send_template_email''] \<and>
   registry (snd (removeTool (tool_name example_tool)
      (registerTool example_tool (ResendPlugin_new None Map.empty)))) \<noteq>
     registry (ResendPlugin_new None Map.empty)"
proof -
  have a: "Map_keys (registry (ResendPlugin_new None Map.empty)) =
     [''resend_send_email'', ''resend_send_template_email'']"
    by (rule registry_new)
  have b: "Map_keys (registry (snd (removeTool (tool_name example_tool)
      (registerTool example_tool (ResendPlugin_new None Map.empty))))) =
     [''resend_send_template_email'']"
    by (simp add: ResendPlugin_new_def initializeTools_def getManifests_def Map_keys_def Let_def
        removeTool_def registerTool_def example_tool_def)
  from a b have "Map_keys (registry (snd (removeTool (tool_name example_tool)
      (registerTool example_tool (ResendPlugin_new None Map.empty))))) \<noteq>
      Map_keys (registry (ResendPlugin_new None Map.empty))"
    by simp
  then have "registry (snd (removeTool (tool_name example_tool)
      (registerTool example_tool (ResendPlugin_new None Map.empty)))) \<noteq>
     registry (ResendPlugin_new None Map.empty)"
    by auto
  with a b show ?thesis by simp
qed

text \<open>
  Claim C9, amended. For every registry and every tool whose name is not yet registered,
  registering the tool and then removing it by name restores the registry to its prior
  contents (and the whole plugin, when the derived list was in sync before). Both
  \<^verbatim>\<open>registerTool\<close> and \<^verbatim>\<open>removeTool\<close> set the derived list \<^verbatim>\<open>config.tools\<close> to the
  values of the registry at once; \<^verbatim>\<open>registerTool\<close> makes the tool the entry of its name.
\<close>

theorem register_then_remove:
  "(\<not> Map_has (tool_name tool) (registry p) \<longrightarrow>
      registry (snd (removeTool (tool_name tool) (registerTool tool p))) = registry p \<and>
      fst (removeTool (tool_name tool) (registerTool tool p)) \<and>
      (config_tools (plugin_config p) = Map_values (registry p) \<longrightarrow>
         snd (removeTool (tool_name tool) (registerTool tool p)) = p)) \<and>
   config_tools (plugin_config (registerTool tool p)) =
     Map_values (registry (registerTool tool p)) \<and>
   config_tools (plugin_config (snd (removeTool name p))) =
     Map_values (registry (snd (removeTool name p))) \<and>
   map_of (registry (registerTool tool p)) (tool_name tool) = Some tool"
proof -
  have has: "Map_has k (Map_set k v es)" for k :: string and v :: Plugin and es
    by (induction es) auto
  have look: "map_of (Map_set k v es) k = Some v" for k :: string and v :: Plugin and es
    by (induction es) auto
  show ?thesis
    by (simp add: registerTool_def removeTool_def Let_def Map_delete_Map_set
        has look)
qed

theorem register_then_remove_witness:
  "\<not> Map_has (tool_name (example_tool\<lparr>tool_name := ''extra''\<rparr>))
       (registry (ResendPlugin_new None Map.empty)) \<and>
   registry (snd (removeTool ''extra''
      (registerTool (example_tool\<lparr>tool_name := ''extra''\<rparr>)
         (ResendPlugin_new None Map.empty)))) =
     registry (ResendPlugin_new None Map.empty) \<and>
   config_tools (plugin_config
      (registerTool (example_tool\<lparr>tool_name := ''extra''\<rparr>)
         (ResendPlugin_new None Map.empty))) =
     Map_values (registry (registerTool (example_tool\<lparr>tool_name := ''extra''\<rparr>)
         (ResendPlugin_new None Map.empty))) \<and>
   snd (removeTool ''extra''
      (registerTool (example_tool\<lparr>tool_name := ''extra''\<rparr>)
         (ResendPlugin_new None Map.empty))) =
     ResendPlugin_new None Map.empty"
proof -
  have s: "config_tools (plugin_config (ResendPlugin_new None Map.empty)) =
     Map_values (registry (ResendPlugin_new None Map.empty))"
    by (simp add: ResendPlugin_new_def initializeTools_def Let_def)
  have h: "\<not> Map_has (tool_name (example_tool\<lparr>tool_name := ''extra''\<rparr>))
       (registry (ResendPlugin_new None Map.empty))"
    by (simp add: Map_has_iff registry_new)
  show ?thesis
    using h s register_then_remove
      [of "example_tool\<lparr>tool_name := ''extra''\<rparr>" "ResendPlugin_new None Map.empty"]
    by simp
qed

subsection \<open>The lifecycle\<close>

lemma execute_without_client:
  "client p = None \<Longrightarrow>
   execute P p name params w = (Inl (Error not_initialized_message), w)"
  by (simp add: execute_def)

lemma plugin_sendEmail_unconfigured:
  "client p = Some c \<Longrightarrow> \<not> isConfigured c \<Longrightarrow>
   ResendPlugin_sendEmail P p params w =
     (Inl (Error (''Failed to send email: '' @ ''Failed to send email: '' @
                  not_configured_message)),
      w\<lparr>logs := logs w @
        [Log_error (''Failed to send email: '' @ not_configured_message) None,
         Log_error (''Failed to send email: '' @ ''Failed to send email: '' @
                    not_configured_message) None]\<rparr>)"
  by (simp add: ResendPlugin_sendEmail_def sendEmail_unconfigured Let_def)

lemma plugin_sendTemplateEmail_unconfigured:
  "client p = Some c \<Longrightarrow> \<not> isConfigured c \<Longrightarrow>
   ResendPlugin_sendTemplateEmail P p params w =
     (Inl (Error (''Failed to send template email: '' @ ''Failed to send template email: '' @
                  not_configured_message)),
      w\<lparr>logs := logs w @
        [Log_error (''Failed to send template email: '' @ not_configured_message) None,
         Log_error (''Failed to send template email: '' @
                    ''Failed to send template email: '' @ not_configured_message) None]\<rparr>)"
  by (simp add: ResendPlugin_sendTemplateEmail_def sendTemplateEmail_unconfigured Let_def)

lemma execute_unconfigured:
  assumes "client p = Some c" and "\<not> isConfigured c"
  shows "(\<exists>e. fst (execute P p name params w) = Inl e) \<and>
         outbound (snd (execute P p name params w)) = outbound w"
  using assms
  by (simp add: execute_def Let_def plugin_sendEmail_unconfigured
      plugin_sendTemplateEmail_unconfigured)

lemma execute_not_initialized:
  assumes "\<not> initialized p"
  shows "(\<exists>e. fst (execute P p name params w) = Inl e) \<and>
         outbound (snd (execute P p name params w)) = outbound w"
proof (cases "client p")
  case None
  then show ?thesis by (simp add: execute_without_client)
next
  case (Some c)
  with assms have "\<not> isConfigured c" by (simp add: initialized_def)
  with Some show ?thesis by (rule execute_unconfigured)
qed

lemma isConfigured_merged:
  "isConfigured \<lparr>config = [''defaultFrom'' \<mapsto> JStr ''onboarding@resend.dev'',
                            ''requestTimeout'' \<mapsto> JNum 10000] ++ cfg\<rparr> =
     truthy (js_get cfg ''apiKey'')"
  by (simp add: isConfigured_def js_get_defaults_apiKey)

lemma init_with_key:
  assumes "truthy (js_get (resendConfig p) ''apiKey'')"
  shows "fst (init p env w) = Inr ()"
    and "client (fst (snd (init p env w))) =
      Some \<lparr>config = [''defaultFrom'' \<mapsto> JStr ''onboarding@resend.dev'',
                        ''requestTimeout'' \<mapsto> JNum 10000] ++ resendConfig p\<rparr>"
  using assms
  by (simp_all add: init_def ResendClient_new_with_key isConfigured_merged Let_def
      initializeTools_def)

lemma init_env_key:
  assumes "\<not> truthy (js_get (resendConfig p) ''apiKey'')"
    and "truthy (env_var env ''RESEND_API_KEY'')"
  shows "fst (init p env w) =
      Inl (Error (''Resend plugin initialization failed: Error: '' @
                  ''Resend client is not properly configured. Check your API key.''))"
    and "client (fst (snd (init p env w))) =
      Some \<lparr>config = [''defaultFrom'' \<mapsto> JStr ''onboarding@resend.dev'',
                        ''requestTimeout'' \<mapsto> JNum 10000] ++ resendConfig p\<rparr>"
  using assms
  by (simp_all add: init_def ResendClient_new_env_key isConfigured_merged Let_def)

lemma init_no_key:
  assumes "\<not> truthy (js_get (resendConfig p) ''apiKey'')"
    and "\<not> truthy (env_var env ''RESEND_API_KEY'')"
  shows "fst (init p env w) =
      Inl (Error (''Resend plugin initialization failed: Error: '' @ missing_api_key_message))"
    and "fst (snd (init p env w)) = p"
  using assms
  by (simp_all add: init_def ResendClient_new_throws missing_api_key_message_def)

lemma init_resendConfig: "resendConfig (fst (snd (init p env w))) = resendConfig p"
  by (simp add: init_def Let_def initializeTools_def split: prod.splits sum.splits)

lemma init_preserves:
  assumes "\<forall>c. client p = Some c \<longrightarrow>
             isConfigured c = truthy (js_get (resendConfig p) ''apiKey'')"
  shows "\<forall>c. client (fst (snd (init p env w))) = Some c \<longrightarrow>
           isConfigured c = truthy (js_get (resendConfig p) ''apiKey'')"
proof (cases "truthy (js_get (resendConfig p) ''apiKey'')")
  case True
  then show ?thesis by (simp add: init_with_key isConfigured_merged)
next
  case False
  show ?thesis
  proof (cases "truthy (env_var env ''RESEND_API_KEY'')")
    case True
    with False show ?thesis by (simp add: init_env_key isConfigured_merged)
  next
    case no: False
    with False assms show ?thesis by (simp add: init_no_key)
  qed
qed

lemma call_preserves:
  assumes "\<forall>c. client p = Some c \<longrightarrow>
             isConfigured c = truthy (js_get (resendConfig p) ''apiKey'')"
  shows "(\<forall>c. client (fst (call P env x (p, w))) = Some c \<longrightarrow>
            isConfigured c =
              truthy (js_get (resendConfig (fst (call P env x (p, w)))) ''apiKey'')) \<and>
         (initialized p \<longrightarrow> initialized (fst (call P env x (p, w))))"
proof (cases x)
  case Call_init
  have k: "initialized p \<longrightarrow> truthy (js_get (resendConfig p) ''apiKey'')"
    using assms by (auto simp add: initialized_def split: option.splits)
  have "initialized p \<longrightarrow> initialized (fst (snd (init p env w)))"
    using k by (auto simp add: initialized_def init_with_key isConfigured_merged)
  with init_preserves [OF assms, of env w] show ?thesis
    unfolding Call_init by (simp add: init_resendConfig)
next
  case (Call_registerTool tool)
  with assms show ?thesis by (simp add: registerTool_def Let_def initialized_def)
next
  case (Call_removeTool name)
  with assms show ?thesis by (simp add: removeTool_def Let_def initialized_def)
next
  case (Call_execute name params)
  with assms show ?thesis by simp
next
  case (Call_sendEmail params)
  with assms show ?thesis by simp
next
  case (Call_sendTemplateEmail params)
  with assms show ?thesis by simp
qed

lemma calls_preserves:
  assumes "\<forall>c. client (fst s) = Some c \<longrightarrow>
             isConfigured c = truthy (js_get (resendConfig (fst s)) ''apiKey'')"
    and "initialized (fst s)"
  shows "initialized (fst (calls P env xs s))"
  using assms
proof (induction xs arbitrary: s)
  case Nil
  then show ?case by simp
next
  case (Cons x xs)
  obtain p w where s: "s = (p, w)" by (cases s)
  from Cons.prems have inv: "\<forall>c. client p = Some c \<longrightarrow>
      isConfigured c = truthy (js_get (resendConfig p) ''apiKey'')"
    and ini: "initialized p"
    by (simp_all add: s)
  from call_preserves [OF inv, of P env x w] ini
  have "\<forall>c. client (fst (call P env x s)) = Some c \<longrightarrow>
          isConfigured c = truthy (js_get (resendConfig (fst (call P env x s))) ''apiKey'')"
    and "initialized (fst (call P env x s))"
    by (simp_all add: s)
  then have "initialized (fst (calls P env xs (call P env x s)))" by (rule Cons.IH)
  then show ?case by simp
qed

lemma calls_invariant:
  assumes "\<forall>c. client (fst s) = Some c \<longrightarrow>
             isConfigured c = truthy (js_get (resendConfig (fst s)) ''apiKey'')"
  shows "\<forall>c. client (fst (calls P env xs s)) = Some c \<longrightarrow>
           isConfigured c = truthy (js_get (resendConfig (fst (calls P env xs s))) ''apiKey'')"
  using assms
proof (induction xs arbitrary: s)
  case Nil
  then show ?case by simp
next
  case (Cons x xs)
  obtain p w where s: "s = (p, w)" by (cases s)
  from Cons.prems have inv: "\<forall>c. client p = Some c \<longrightarrow>
      isConfigured c = truthy (js_get (resendConfig p) ''apiKey'')"
    by (simp add: s)
  from call_preserves [OF inv, of P env x w]
  have "\<forall>c. client (fst (call P env x s)) = Some c \<longrightarrow>
          isConfigured c = truthy (js_get (resendConfig (fst (call P env x s))) ''apiKey'')"
    by (simp add: s)
  then show ?case unfolding calls.simps by (rule Cons.IH)
qed

lemma calls_append: "calls P env (xs @ ys) s = calls P env ys (calls P env xs s)"
  by (induction xs arbitrary: s) simp_all

lemma client_new: "client (ResendPlugin_new cfg env) = None"
  by (simp add: ResendPlugin_new_def initializeTools_def Let_def)

lemma resendConfig_new_Some: "resendConfig (ResendPlugin_new (Some cfg) env) = cfg"
  by (simp add: ResendPlugin_new_def resendConfig_initializeTools)

lemma execute_send_email_unconfigured:
  assumes "client p = Some c" and "\<not> isConfigured c"
  shows "fst (execute P p ''resend_send_email'' params w) =
      Inl (Error (''Failed to send email: '' @ ''Failed to send email: '' @
                  not_configured_message))"
    and "fst (execute P p ''resend_send_template_email'' params w) =
      Inl (Error (''Failed to send template email: '' @
                  ''Failed to send template email: '' @ not_configured_message))"
proof -
  have r: "replace ''resend_send_email'' ''resend_'' [] = ''send_email''"
    "replace ''resend_send_template_email'' ''resend_'' [] = ''send_template_email''"
    by simp_all
  show "fst (execute P p ''resend_send_email'' params w) =
      Inl (Error (''Failed to send email: '' @ ''Failed to send email: '' @
                  not_configured_message))"
    unfolding execute_def r Let_def plugin_sendEmail_unconfigured [OF assms]
    by (simp add: assms)
  show "fst (execute P p ''resend_send_template_email'' params w) =
      Inl (Error (''Failed to send template email: '' @
                  ''Failed to send template email: '' @ not_configured_message))"
    unfolding execute_def r Let_def plugin_sendTemplateEmail_unconfigured [OF assms]
    by (simp add: assms)
qed

text \<open>
  Claim C6, as stated, fails after an \<^verbatim>\<open>init\<close> that threw at its own check. With a
  configuration that has no \<^verbatim>\<open>apiKey\<close> and \<^verbatim>\<open>RESEND_API_KEY\<close> in the environment, the
  SDK constructs, \<^verbatim>\<open>init\<close> assigns the client and then throws because it is not
  configured: the adapter is not Initialized but its client is no longer \<^verbatim>\<open>null\<close>. The
  guard of \<^verbatim>\<open>execute\<close> lets the call through, and it fails in the gateway with the
  configuration error, not with the "not initialized" error.
\<close>

theorem execute_after_failed_init:
  "fst (init (ResendPlugin_new (Some Map.empty) env_with_key) env_with_key world0) =
     Inl (Error (''Resend plugin initialization failed: Error: '' @
                 ''Resend client is not properly configured. Check your API key.'')) \<and>
   client (fst (snd (init (ResendPlugin_new (Some Map.empty) env_with_key) env_with_key
      world0))) = Some client_without_key \<and>
   \<not> initialized (fst (snd (init (ResendPlugin_new (Some Map.empty) env_with_key)
      env_with_key world0))) \<and>
   fst (execute provider_abc123
          (fst (snd (init (ResendPlugin_new (Some Map.empty) env_with_key) env_with_key
             world0)))
          ''resend_send_email''
          [''to'' \<mapsto> JStr ''a@b.com'', ''subject'' \<mapsto> JStr ''Hi'',
           ''html'' \<mapsto> JStr ''<p>hi</p>'']
          (snd (snd (init (ResendPlugin_new (Some Map.empty) env_with_key) env_with_key
             world0)))) =
     Inl (Error (''Failed to send email: '' @ ''Failed to send email: '' @
                 not_configured_message)) \<and>
   fst (execute provider_abc123
          (fst (snd (init (ResendPlugin_new (Some Map.empty) env_with_key) env_with_key
             world0)))
          ''resend_send_email''
          [''to'' \<mapsto> JStr ''a@b.com'', ''subject'' \<mapsto> JStr ''Hi'',
           ''html'' \<mapsto> JStr ''<p>hi</p>'']
          (snd (snd (init (ResendPlugin_new (Some Map.empty) env_with_key) env_with_key
             world0)))) \<noteq>
     Inl (Error not_initialized_message)"
proof -
  let ?q = "ResendPlugin_new (Some Map.empty) env_with_key"
  let ?p = "fst (snd (init ?q env_with_key world0))"
  have k: "\<not> truthy (js_get (resendConfig ?q) ''apiKey'')"
    by (simp add: resendConfig_new_Some js_get_def)
  have v: "truthy (env_var env_with_key ''RESEND_API_KEY'')"
    by (simp add: env_var_def env_with_key_def)
  have c: "client ?p = Some client_without_key"
    by (simp add: init_env_key(2) [OF k v] resendConfig_new_Some client_without_key_def)
  have n: "\<not> initialized ?p"
    by (simp add: initialized_def c not_configured_without_key)
  have e: "fst (execute provider_abc123 ?p ''resend_send_email''
          [''to'' \<mapsto> JStr ''a@b.com'', ''subject'' \<mapsto> JStr ''Hi'',
           ''html'' \<mapsto> JStr ''<p>hi</p>'']
          (snd (snd (init ?q env_with_key world0)))) =
     Inl (Error (''Failed to send email: '' @ ''Failed to send email: '' @
                 not_configured_message))"
    by (rule execute_send_email_unconfigured(1) [OF c not_configured_without_key])
  have d: "Inl (Error (''Failed to send email: '' @ ''Failed to send email: '' @
                 not_configured_message)) \<noteq>
     (Inl (Error not_initialized_message) :: thrown + js_object)"
    by (simp add: not_initialized_message_def)
  have f: "fst (init ?q env_with_key world0) =
     Inl (Error (''Resend plugin initialization failed: Error: '' @
                 ''Resend client is not properly configured. Check your API key.''))"
    by (rule init_env_key(1) [OF k v])
  from f c n e d show ?thesis
    by (intro conjI) (simp_all only: not_False_eq_True)
qed

text \<open>
  Claim C6, amended. A newly constructed adapter has no client, and while the client is
  absent every execution of a tool fails with the "not initialized" error and does
  nothing else. \<^verbatim>\<open>init\<close> reaches Initialized when the configured \<^verbatim>\<open>apiKey\<close> is
  truthy. Without it, where the environment has \<^verbatim>\<open>RESEND_API_KEY\<close>, \<^verbatim>\<open>init\<close> fails
  at its own check and leaves an unconfigured client in place; where the environment has
  none either, \<^verbatim>\<open>init\<close> fails with the SDK's error and leaves the adapter as it was.
  With an unconfigured client in place, the execution of either tool passes the guard
  and fails with the gateway's configuration error. In every state that is not
  Initialized an execution fails and hands nothing to the provider. Once Initialized is
  reached, no sequence of calls on the adapter leaves it.
\<close>

theorem execute_guard_and_lifecycle:
  "client (ResendPlugin_new cfg env) = None \<and>
   (client p = None \<longrightarrow>
      execute P p name params w = (Inl (Error not_initialized_message), w)) \<and>
   (\<forall>c. client p = Some c \<and> \<not> isConfigured c \<longrightarrow>
      fst (execute P p ''resend_send_email'' params w) =
        Inl (Error (''Failed to send email: '' @ ''Failed to send email: '' @
                    not_configured_message)) \<and>
      fst (execute P p ''resend_send_template_email'' params w) =
        Inl (Error (''Failed to send template email: '' @
                    ''Failed to send template email: '' @ not_configured_message))) \<and>
   (\<not> initialized p \<longrightarrow>
      (\<exists>e. fst (execute P p name params w) = Inl e) \<and>
      outbound (snd (execute P p name params w)) = outbound w) \<and>
   (truthy (js_get (resendConfig p) ''apiKey'') \<longrightarrow>
      fst (init p env w) = Inr () \<and> initialized (fst (snd (init p env w)))) \<and>
   (\<not> truthy (js_get (resendConfig p) ''apiKey'') \<and>
    truthy (env_var env ''RESEND_API_KEY'') \<longrightarrow>
      fst (init p env w) =
        Inl (Error (''Resend plugin initialization failed: Error: '' @
                    ''Resend client is not properly configured. Check your API key.'')) \<and>
      (\<exists>c. client (fst (snd (init p env w))) = Some c \<and> \<not> isConfigured c)) \<and>
   (\<not> truthy (js_get (resendConfig p) ''apiKey'') \<and>
    \<not> truthy (env_var env ''RESEND_API_KEY'') \<longrightarrow>
      fst (init p env w) =
        Inl (Error (''Resend plugin initialization failed: Error: '' @
                    missing_api_key_message)) \<and>
      fst (snd (init p env w)) = p) \<and>
   (initialized (fst (calls P env' xs (ResendPlugin_new cfg env, w0))) \<longrightarrow>
      initialized (fst (calls P env' (xs @ ys) (ResendPlugin_new cfg env, w0))))"
proof (intro conjI impI allI)
  show "client (ResendPlugin_new cfg env) = None" by (rule client_new)
next
  assume "client p = None"
  then show "execute P p name params w = (Inl (Error not_initialized_message), w)"
    by (rule execute_without_client)
next
  fix c
  assume "client p = Some c \<and> \<not> isConfigured c"
  then have c: "client p = Some c" and n: "\<not> isConfigured c" by simp_all
  show "fst (execute P p ''resend_send_email'' params w) =
        Inl (Error (''Failed to send email: '' @ ''Failed to send email: '' @
                    not_configured_message))"
    by (rule execute_send_email_unconfigured(1) [OF c n])
  show "fst (execute P p ''resend_send_template_email'' params w) =
        Inl (Error (''Failed to send template email: '' @
                    ''Failed to send template email: '' @ not_configured_message))"
    by (rule execute_send_email_unconfigured(2) [OF c n])
next
  assume "\<not> initialized p"
  then show "\<exists>e. fst (execute P p name params w) = Inl e"
    and "outbound (snd (execute P p name params w)) = outbound w"
    using execute_not_initialized [of p P name params w] by simp_all
next
  assume k: "truthy (js_get (resendConfig p) ''apiKey'')"
  show "fst (init p env w) = Inr ()" by (rule init_with_key(1) [OF k])
  show "initialized (fst (snd (init p env w)))"
    using k by (simp add: initialized_def init_with_key(2) isConfigured_merged)
next
  assume "\<not> truthy (js_get (resendConfig p) ''apiKey'') \<and>
    truthy (env_var env ''RESEND_API_KEY'')"
  then have k: "\<not> truthy (js_get (resendConfig p) ''apiKey'')"
    and v: "truthy (env_var env ''RESEND_API_KEY'')" by simp_all
  show "fst (init p env w) =
        Inl (Error (''Resend plugin initialization failed: Error: '' @
                    ''Resend client is not properly configured. Check your API key.''))"
    by (rule init_env_key(1) [OF k v])
  show "\<exists>c. client (fst (snd (init p env w))) = Some c \<and> \<not> isConfigured c"
    using k by (simp add: init_env_key(2) [OF k v] isConfigured_merged)
next
  assume "\<not> truthy (js_get (resendConfig p) ''apiKey'') \<and>
    \<not> truthy (env_var env ''RESEND_API_KEY'')"
  then have k: "\<not> truthy (js_get (resendConfig p) ''apiKey'')"
    and v: "\<not> truthy (env_var env ''RESEND_API_KEY'')" by simp_all
  show "fst (init p env w) =
        Inl (Error (''Resend plugin initialization failed: Error: '' @
                    missing_api_key_message))"
    by (rule init_no_key(1) [OF k v])
  show "fst (snd (init p env w)) = p"
    by (rule init_no_key(2) [OF k v])
next
  assume ini: "initialized (fst (calls P env' xs (ResendPlugin_new cfg env, w0)))"
  have "\<forall>c. client (fst (ResendPlugin_new cfg env, w0)) = Some c \<longrightarrow>
          isConfigured c =
            truthy (js_get (resendConfig (fst (ResendPlugin_new cfg env, w0))) ''apiKey'')"
    by (simp add: client_new)
  then have "\<forall>c. client (fst (calls P env' xs (ResendPlugin_new cfg env, w0))) = Some c \<longrightarrow>
      isConfigured c =
        truthy (js_get (resendConfig (fst (calls P env' xs (ResendPlugin_new cfg env, w0))))
          ''apiKey'')"
    by (rule calls_invariant)
  from calls_preserves [OF this ini, of P env' ys]
  show "initialized (fst (calls P env' (xs @ ys) (ResendPlugin_new cfg env, w0)))"
    by (simp add: calls_append)
qed

theorem execute_guard_and_lifecycle_witness:
  "client (ResendPlugin_new (Some [''apiKey'' \<mapsto> JStr ''re_123'']) Map.empty) = None \<and>
   execute provider_abc123
      (ResendPlugin_new (Some [''apiKey'' \<mapsto> JStr ''re_123'']) Map.empty)
      ''resend_send_email''
      [''to'' \<mapsto> JStr ''a@b.com'', ''subject'' \<mapsto> JStr ''Hi'',
       ''html'' \<mapsto> JStr ''<p>hi</p>''] world0 =
     (Inl (Error not_initialized_message), world0) \<and>
   initialized (fst (calls provider_abc123 Map.empty [Call_init]
      (ResendPlugin_new (Some [''apiKey'' \<mapsto> JStr ''re_123'']) Map.empty, world0))) \<and>
   initialized (fst (calls provider_abc123 Map.empty
      ([Call_init] @
       [Call_removeTool ''resend_send_email'',
        Call_execute ''resend_send_template_email'' Map.empty,
        Call_init])
      (ResendPlugin_new (Some [''apiKey'' \<mapsto> JStr ''re_123'']) Map.empty, world0))) \<and>
   client (fst (snd (init (ResendPlugin_new (Some Map.empty) env_with_key) env_with_key
      world0))) = Some client_without_key \<and>
   \<not> isConfigured client_without_key \<and>
   fst (execute provider_abc123
      (fst (snd (init (ResendPlugin_new (Some Map.empty) env_with_key) env_with_key world0)))
      ''resend_send_template_email'' Map.empty world0) =
     Inl (Error (''Failed to send template email: '' @
                 ''Failed to send template email: '' @ not_configured_message)) \<and>
   fst (init (ResendPlugin_new None Map.empty) Map.empty world0) =
     Inl (Error (''Resend plugin initialization failed: Error: '' @
                 missing_api_key_message)) \<and>
   fst (snd (init (ResendPlugin_new None Map.empty) Map.empty world0)) =
     ResendPlugin_new None Map.empty"
proof -
  let ?q = "ResendPlugin_new (Some [''apiKey'' \<mapsto> JStr ''re_123'']) Map.empty"
  let ?r = "ResendPlugin_new (Some Map.empty) env_with_key"
  let ?s = "ResendPlugin_new None Map.empty"
  note t1 = execute_guard_and_lifecycle
    [where cfg = "Some [''apiKey'' \<mapsto> JStr ''re_123'']" and env = Map.empty and p = ?q
       and P = provider_abc123 and name = "''resend_send_email''"
       and params = "[''to'' \<mapsto> JStr ''a@b.com'', ''subject'' \<mapsto> JStr ''Hi'',
                      ''html'' \<mapsto> JStr ''<p>hi</p>'']"
       and w = world0 and env' = Map.empty and xs = "[Call_init]" and ?w0.0 = world0
       and ys = "[Call_removeTool ''resend_send_email'',
                  Call_execute ''resend_send_template_email'' Map.empty,
                  Call_init]"]
  note t2 = execute_guard_and_lifecycle
    [where cfg = "Some Map.empty" and env = env_with_key
       and p = "fst (snd (init ?r env_with_key world0))"
       and P = provider_abc123 and params = Map.empty and w = world0]
  note t3 = execute_guard_and_lifecycle
    [where cfg = None and env = Map.empty and p = ?s and w = world0]
  have n: "client ?q = None" using t1 by simp
  have e: "execute provider_abc123 ?q ''resend_send_email''
      [''to'' \<mapsto> JStr ''a@b.com'', ''subject'' \<mapsto> JStr ''Hi'',
       ''html'' \<mapsto> JStr ''<p>hi</p>''] world0 =
     (Inl (Error not_initialized_message), world0)"
    using t1 n by simp
  have k: "truthy (js_get (resendConfig ?q) ''apiKey'')"
    by (simp add: resendConfig_new_Some js_get_def)
  have i: "initialized (fst (calls provider_abc123 Map.empty [Call_init] (?q, world0)))"
    using t1 k by simp
  have l: "initialized (fst (calls provider_abc123 Map.empty
      ([Call_init] @
       [Call_removeTool ''resend_send_email'',
        Call_execute ''resend_send_template_email'' Map.empty,
        Call_init]) (?q, world0)))"
    using t1 i by blast
  have kr: "\<not> truthy (js_get (resendConfig ?r) ''apiKey'')"
    by (simp add: resendConfig_new_Some js_get_def)
  have v: "truthy (env_var env_with_key ''RESEND_API_KEY'')"
    by (simp add: env_var_def env_with_key_def)
  have c: "client (fst (snd (init ?r env_with_key world0))) = Some client_without_key"
    by (simp add: init_env_key(2) [OF kr v] resendConfig_new_Some client_without_key_def)
  have x: "fst (execute provider_abc123 (fst (snd (init ?r env_with_key world0)))
      ''resend_send_template_email'' Map.empty world0) =
     Inl (Error (''Failed to send template email: '' @
                 ''Failed to send template email: '' @ not_configured_message))"
    using t2 c not_configured_without_key by blast
  have ks: "\<not> truthy (js_get (resendConfig ?s) ''apiKey'')"
    by (simp add: resendConfig_new_env js_get_def env_var_def)
  have vs: "\<not> truthy (env_var Map.empty ''RESEND_API_KEY'')"
    by (simp add: env_var_def)
  have y: "fst (init ?s Map.empty world0) =
     Inl (Error (''Resend plugin initialization failed: Error: '' @
                 missing_api_key_message))"
    and z: "fst (snd (init ?s Map.empty world0)) = ?s"
    using t3 ks vs by blast+
  from n e i l c not_configured_without_key x y z show ?thesis
    by (intro conjI)
qed

end
